theory Spec2Isabelle
  imports Main "HOL-Library.Word" "HOL-Library.AList"
begin

section \<open>Message authentication: canonical payloads and verification\<close>

text \<open>
  The message types of \<^verbatim>\<open>types.ts\<close>. Record fields are global constants in HOL, so each
  field carries a short prefix of its interface (\<open>mf_\<close> for MessageFile, \<open>m_\<close> for Message,
  \<open>gm_\<close> for GroupMessage, and so on). An optional field (\<^verbatim>\<open>file?: MessageFile\<close>) is an
  \<open>option\<close>. The numeric fields of this program are integer timestamps, sizes, identifiers
  and indices, and are modelled as \<open>int\<close>.
\<close>

record MessageFile =
  mf_name :: string
  mf_type :: string
  mf_size :: int
  mf_data :: string

datatype Sender = you | them

datatype MessageState = sent | sending | failed | received

record Message =
  m_id :: int
  m_contactId :: int
  m_sender :: Sender
  m_content :: string
  m_file :: "MessageFile option"
  m_signature :: string
  m_timestamp :: int
  m_state :: MessageState

record GroupPoll =
  gp_question :: string
  gp_options :: "string list"

record GroupEvent =
  ge_title :: string
  ge_description :: string
  ge_location :: "string option"
  ge_eventTime :: string

record GroupPollVote =
  gv_pollId :: int
  gv_optionIndex :: int

record GroupUpdate =
  gu_displayPicture :: string

datatype GroupMessageType = text_msg | file_msg | event_msg | poll_msg | pollVote_msg | group_update_msg

record GroupMessage =
  gm_id :: int
  gm_groupId :: string
  gm_senderKey :: string
  gm_timestamp :: int
  gm_signature :: string
  gm_type :: GroupMessageType
  gm_content :: string
  gm_file :: "MessageFile option"
  gm_poll :: "GroupPoll option"
  gm_event :: "GroupEvent option"
  gm_pollVote :: "GroupPollVote option"
  gm_groupUpdate :: "GroupUpdate option"

subsection \<open>JSON.stringify on the values the canonicalizer builds\<close>

text \<open>
  The object literals of \<^verbatim>\<open>getCanonicalMessagePayload\<close> and
  \<^verbatim>\<open>getCanonicalGroupMessagePayload\<close> hold strings, numbers, arrays of strings, nested
  object literals and \<^verbatim>\<open>undefined\<close>. An object is the list of its properties in the
  order the literal writes them, which is the order \<^verbatim>\<open>JSON.stringify\<close> emits them in.
\<close>

datatype json =
    JUndefined
  | JString string
  | JNumber int
  | JArray "json list"
  | JObject "(string \<times> json) list"

definition digit_char :: "nat \<Rightarrow> char" where
  "digit_char d = ''0123456789abcdef'' ! (d mod 16)"

text \<open>The decimal digits of an integer that is not negative, then of any integer.\<close>

function show_digits :: "int \<Rightarrow> string" where
  "show_digits n =
     (if n < 10 then [digit_char (nat n)]
      else show_digits (n div 10) @ [digit_char (nat (n mod 10))])"
  by pat_completeness auto
termination
  by (relation "measure nat") auto

definition show_int :: "int \<Rightarrow> string" where
  "show_int i = (if i < 0 then CHR ''-'' # show_digits (- i) else show_digits i)"

text \<open>
  QuoteJSONString: the two-character escapes, \<^verbatim>\<open>\u00xx\<close> for the other control characters,
  every other code unit as it is. \<open>CHR 0x22\<close> is the double quote and \<open>CHR 0x5C\<close> the
  backslash.
\<close>

definition escape_char :: "char \<Rightarrow> string" where
  "escape_char c =
     (if c = CHR 0x08 then [CHR 0x5C, CHR ''b'']
      else if c = CHR 0x09 then [CHR 0x5C, CHR ''t'']
      else if c = CHR 0x0A then [CHR 0x5C, CHR ''n'']
      else if c = CHR 0x0C then [CHR 0x5C, CHR ''f'']
      else if c = CHR 0x0D then [CHR 0x5C, CHR ''r'']
      else if c = CHR 0x22 then [CHR 0x5C, CHR 0x22]
      else if c = CHR 0x5C then [CHR 0x5C, CHR 0x5C]
      else if of_char c < (32::nat) then
        [CHR 0x5C, CHR ''u'', CHR ''0'', CHR ''0'',
         digit_char (of_char c div 16), digit_char (of_char c mod 16)]
      else [c])"

definition quote :: "string \<Rightarrow> string" where
  "quote s = CHR 0x22 # concat (map escape_char s) @ [CHR 0x22]"

fun join :: "string \<Rightarrow> string list \<Rightarrow> string" where
  "join sep [] = []"
| "join sep [x] = x"
| "join sep (x # y # ys) = x @ sep @ join sep (y # ys)"

text \<open>
  The properties of an object that \<^verbatim>\<open>JSON.stringify\<close> serializes: a property whose value
  is \<^verbatim>\<open>undefined\<close> is skipped, key and all.
\<close>

definition emitted :: "(string \<times> json) list \<Rightarrow> (string \<times> json) list" where
  "emitted ps = filter (\<lambda>p. snd p \<noteq> JUndefined) ps"

text \<open>
  An \<^verbatim>\<open>undefined\<close> element of an array is written \<^verbatim>\<open>null\<close>; as the value of a property it
  is never reached, the property being skipped.
\<close>

fun stringify :: "json \<Rightarrow> string" where
  "stringify JUndefined = ''null''"
| "stringify (JString s) = quote s"
| "stringify (JNumber n) = show_int n"
| "stringify (JArray xs) = ''['' @ join '','' (map stringify xs) @ '']''"
| "stringify (JObject ps) =
     ''{'' @ join '','' (map (\<lambda>p. quote (fst p) @ '':'' @ stringify (snd p))
                          (filter (\<lambda>p. snd p \<noteq> JUndefined) ps)) @ ''}''"

subsection \<open>The canonical payloads\<close>

text \<open>
  \<^verbatim>\<open>message.file ? {name, type, size} : undefined\<close>: an object is always truthy, so the test
  is whether the optional field is there. The sub-object is rebuilt field by field; the
  file's \<^verbatim>\<open>data\<close> is not copied.
\<close>

definition canonicalFile :: "MessageFile option \<Rightarrow> json" where
  "canonicalFile f =
     (case f of
        None \<Rightarrow> JUndefined
      | Some file \<Rightarrow> JObject [(''name'', JString (mf_name file)),
                                (''type'', JString (mf_type file)),
                                (''size'', JNumber (mf_size file))])"

definition senderString :: "Sender \<Rightarrow> string" where
  "senderString s = (case s of you \<Rightarrow> ''you'' | them \<Rightarrow> ''them'')"

definition messagePayload :: "Message \<Rightarrow> (string \<times> json) list" where
  "messagePayload message =
     [(''contactId'', JNumber (m_contactId message)),
      (''sender'', JString (senderString (m_sender message))),
      (''content'', JString (m_content message)),
      (''timestamp'', JNumber (m_timestamp message)),
      (''file'', canonicalFile (m_file message))]"

definition getCanonicalMessagePayload :: "Message \<Rightarrow> string" where
  "getCanonicalMessagePayload message = stringify (JObject (messagePayload message))"

definition groupTypeString :: "GroupMessageType \<Rightarrow> string" where
  "groupTypeString t =
     (case t of text_msg \<Rightarrow> ''text'' | file_msg \<Rightarrow> ''file'' | event_msg \<Rightarrow> ''event''
      | poll_msg \<Rightarrow> ''poll'' | pollVote_msg \<Rightarrow> ''pollVote'' | group_update_msg \<Rightarrow> ''group_update'')"

definition optString :: "string option \<Rightarrow> json" where
  "optString s = (case s of None \<Rightarrow> JUndefined | Some v \<Rightarrow> JString v)"

definition canonicalEvent :: "GroupEvent option \<Rightarrow> json" where
  "canonicalEvent e =
     (case e of
        None \<Rightarrow> JUndefined
      | Some ev \<Rightarrow> JObject [(''title'', JString (ge_title ev)),
                              (''description'', JString (ge_description ev)),
                              (''location'', optString (ge_location ev)),
                              (''eventTime'', JString (ge_eventTime ev))])"

definition canonicalPoll :: "GroupPoll option \<Rightarrow> json" where
  "canonicalPoll p =
     (case p of
        None \<Rightarrow> JUndefined
      | Some poll \<Rightarrow> JObject [(''question'', JString (gp_question poll)),
                                (''options'', JArray (map JString (gp_options poll)))])"

definition canonicalPollVote :: "GroupPollVote option \<Rightarrow> json" where
  "canonicalPollVote v =
     (case v of
        None \<Rightarrow> JUndefined
      | Some vote \<Rightarrow> JObject [(''pollId'', JNumber (gv_pollId vote)),
                                (''optionIndex'', JNumber (gv_optionIndex vote))])"

definition canonicalGroupUpdate :: "GroupUpdate option \<Rightarrow> json" where
  "canonicalGroupUpdate u =
     (case u of
        None \<Rightarrow> JUndefined
      | Some upd \<Rightarrow> JObject [(''displayPicture'', JString (gu_displayPicture upd))])"

definition groupMessagePayload :: "GroupMessage \<Rightarrow> (string \<times> json) list" where
  "groupMessagePayload message =
     [(''groupId'', JString (gm_groupId message)),
      (''senderKey'', JString (gm_senderKey message)),
      (''timestamp'', JNumber (gm_timestamp message)),
      (''type'', JString (groupTypeString (gm_type message))),
      (''content'', JString (gm_content message)),
      (''file'', canonicalFile (gm_file message)),
      (''event'', canonicalEvent (gm_event message)),
      (''poll'', canonicalPoll (gm_poll message)),
      (''pollVote'', canonicalPollVote (gm_pollVote message)),
      (''groupUpdate'', canonicalGroupUpdate (gm_groupUpdate message))]"

definition getCanonicalGroupMessagePayload :: "GroupMessage \<Rightarrow> string" where
  "getCanonicalGroupMessagePayload message = stringify (JObject (groupMessagePayload message))"

text \<open>The keys that appear in the serialized object.\<close>

definition serializedKeys :: "(string \<times> json) list \<Rightarrow> string list" where
  "serializedKeys ps = map fst (emitted ps)"

text \<open>
  The fields the signature covers, as one value per message: what two messages must agree
  on to be the same signed content.
\<close>

definition fileFields :: "MessageFile \<Rightarrow> string \<times> string \<times> int" where
  "fileFields f = (mf_name f, mf_type f, mf_size f)"

definition messageFields ::
  "Message \<Rightarrow> int \<times> Sender \<times> string \<times> int \<times> (string \<times> string \<times> int) option" where
  "messageFields m =
     (m_contactId m, m_sender m, m_content m, m_timestamp m, map_option fileFields (m_file m))"

definition groupMessageFields ::
  "GroupMessage \<Rightarrow> string \<times> string \<times> int \<times> GroupMessageType \<times> string
     \<times> (string \<times> string \<times> int) option
     \<times> (string \<times> string \<times> string option \<times> string) option
     \<times> (string \<times> string list) option
     \<times> (int \<times> int) option
     \<times> string option" where
  "groupMessageFields g =
     (gm_groupId g, gm_senderKey g, gm_timestamp g, gm_type g, gm_content g,
      map_option fileFields (gm_file g),
      map_option (\<lambda>e. (ge_title e, ge_description e, ge_location e, ge_eventTime e)) (gm_event g),
      map_option (\<lambda>p. (gp_question p, gp_options p)) (gm_poll g),
      map_option (\<lambda>v. (gv_pollId v, gv_optionIndex v)) (gm_pollVote g),
      map_option gu_displayPicture (gm_groupUpdate g))"

subsection \<open>Hex decoding and verification\<close>

type_synonym byte = "8 word"

text \<open>
  \<^verbatim>\<open>parseInt(s, 16)\<close>: leading white space is skipped, then an optional sign, then an
  optional \<^verbatim>\<open>0x\<close>, then the longest run of hexadecimal digits; no digit at all is
  \<^verbatim>\<open>NaN\<close>, here \<open>None\<close>. Strings are sequences of 8-bit code units.
\<close>

definition isWhiteSpace :: "char \<Rightarrow> bool" where
  "isWhiteSpace c \<longleftrightarrow>
     c \<in> {CHR 0x09, CHR 0x0A, CHR 0x0B, CHR 0x0C, CHR 0x0D, CHR 0x20, CHR 0xA0}"

definition hexDigit :: "char \<Rightarrow> nat option" where
  "hexDigit c =
     (let n = (of_char c :: nat) in
      if 48 \<le> n \<and> n \<le> 57 then Some (n - 48)
      else if 97 \<le> n \<and> n \<le> 102 then Some (n - 87)
      else if 65 \<le> n \<and> n \<le> 70 then Some (n - 55)
      else None)"

definition hexValue :: "string \<Rightarrow> nat" where
  "hexValue ds = foldl (\<lambda>acc c. 16 * acc + (case hexDigit c of Some d \<Rightarrow> d | None \<Rightarrow> 0)) 0 ds"

definition stripSign :: "string \<Rightarrow> int \<times> string" where
  "stripSign s =
     (case s of
        [] \<Rightarrow> (1, [])
      | c # r \<Rightarrow> if c = CHR ''-'' then (- 1, r) else if c = CHR ''+'' then (1, r) else (1, s))"

definition stripPrefix :: "string \<Rightarrow> string" where
  "stripPrefix s =
     (case s of
        c # d # r \<Rightarrow> if c = CHR ''0'' \<and> (d = CHR ''x'' \<or> d = CHR ''X'') then r else s
      | _ \<Rightarrow> s)"

definition parseInt16 :: "string \<Rightarrow> int option" where
  "parseInt16 s =
     (let (sign, body) = stripSign (dropWhile isWhiteSpace s);
          ds = takeWhile (\<lambda>c. hexDigit c \<noteq> None) (stripPrefix body)
      in if ds = [] then None else Some (sign * int (hexValue ds)))"

text \<open>Storing into a \<^verbatim>\<open>Uint8Array\<close>: \<^verbatim>\<open>NaN\<close> becomes 0, a number is taken modulo 256.\<close>

definition toUint8 :: "int option \<Rightarrow> byte" where
  "toUint8 v = (case v of None \<Rightarrow> 0 | Some n \<Rightarrow> word_of_int n)"

text \<open>
  \<^verbatim>\<open>hexToBuffer\<close>: the array has \<open>\<lfloor>length / 2\<rfloor>\<close> elements (the constructor truncates a
  fractional length), element \<open>k\<close> is parsed from the two code units at \<open>2k\<close>; for an odd
  length the last iteration writes past the end of the array, which a typed array ignores.
\<close>

definition hexToBuffer :: "string \<Rightarrow> byte list" where
  "hexToBuffer hex =
     map (\<lambda>k. toUint8 (parseInt16 (take 2 (drop (2 * k) hex)))) [0 ..< length hex div 2]"







text \<open>Sample values for the instances below.\<close>

definition sampleFile :: MessageFile where
  "sampleFile = \<lparr>mf_name = ''a.txt'', mf_type = ''text/plain'', mf_size = 12, mf_data = ''aGVsbG8=''\<rparr>"

definition sampleMessage :: Message where
  "sampleMessage =
     \<lparr>m_id = 1, m_contactId = 7, m_sender = you, m_content = ''hi'', m_file = Some sampleFile,
      m_signature = [], m_timestamp = 1700000000000, m_state = sending\<rparr>"

definition sampleGroupMessage :: GroupMessage where
  "sampleGroupMessage =
     \<lparr>gm_id = 1, gm_groupId = ''g'', gm_senderKey = [], gm_timestamp = 1700000000000,
      gm_signature = [], gm_type = poll_msg, gm_content = ''lunch?'', gm_file = None,
      gm_poll = Some \<lparr>gp_question = ''where'', gp_options = [''here'', ''there'']\<rparr>,
      gm_event = None, gm_pollVote = None, gm_groupUpdate = None\<rparr>"






section \<open>The signaling client\<close>

datatype SignalType = offer | answer | candidate

text \<open>
  \<^verbatim>\<open>SignalMessage\<close> as \<^verbatim>\<open>sendSignal\<close> builds it. \<open>'d\<close> is the type of the negotiation
  blob (\<^verbatim>\<open>data: any\<close>), which the client never inspects.
\<close>

record 'd SignalMessage =
  sm_type :: SignalType
  sm_from :: string
  sm_to :: string
  sm_data :: 'd
  sm_room :: string

datatype ReadyState = CONNECTING | OPEN | CLOSING | CLOSED

text \<open>
  A \<^verbatim>\<open>WebSocket\<close> object as the client sees it: an identity (a fresh number for each
  \<^verbatim>\<open>new WebSocket\<close>), its \<^verbatim>\<open>readyState\<close>, and whether the four handlers
  (\<^verbatim>\<open>onopen\<close>, \<^verbatim>\<open>onmessage\<close>, \<^verbatim>\<open>onclose\<close>, \<^verbatim>\<open>onerror\<close>) are still installed.
\<close>

record WebSocket =
  ws_id :: nat
  readyState :: ReadyState
  handlers :: bool

text \<open>
  What \<^verbatim>\<open>JSON.parse(event.data)\<close> can give. The cast \<^verbatim>\<open>as SignalMessage\<close> checks nothing at
  run time, so a property of the parsed value may be missing or of another type: a property
  is \<open>JSUndefined\<close> when absent, \<open>JSNull\<close>, a string, or \<open>JSOther\<close> for a number, boolean,
  array or object. A frame is text that does not parse (\<open>NotJSON\<close>), the JSON
  \<^verbatim>\<open>null\<close>, or a value with properties; a JSON number, string, boolean or array is a value
  whose four properties are all \<open>JSUndefined\<close>.
\<close>

datatype jsval = JSUndefined | JSNull | JSString string | JSOther

record 'd ParsedFrame =
  f_type :: jsval
  f_from :: jsval
  f_to :: jsval
  f_data :: 'd
  f_room :: jsval

datatype 'd frame = NotJSON | JSONNull | JSONValue "'d ParsedFrame"

text \<open>
  The browser, as far as the program depends on it: whether \<^verbatim>\<open>new WebSocket(url)\<close> returns
  (it throws on a URL it cannot parse); \<^verbatim>\<open>new URL(url).searchParams.get('room')\<close>, which is
  \<open>None\<close> when the \<^verbatim>\<open>URL\<close> constructor throws and \<open>Some None\<close> when there is no such
  parameter; and whether \<^verbatim>\<open>send\<close> on an open \<^verbatim>\<open>RTCDataChannel\<close> takes a message, given what
  the channel was handed before (it throws when the message is larger than the transport's
  \<^verbatim>\<open>maxMessageSize\<close> or cannot be buffered).
\<close>

record Browser =
  webSocketAccepts :: "string \<Rightarrow> bool"
  searchParamRoom :: "string \<Rightarrow> string option option"
  channelSendAccepts :: "string list \<Rightarrow> string \<Rightarrow> bool"

text \<open>
  The fields of \<^verbatim>\<open>SignalingService\<close>, followed by what the service does to the world:
  the pending timers (handle and delay in milliseconds), the frames handed to
  \<^verbatim>\<open>socket.send\<close> (with the identity of the socket), the \<^verbatim>\<open>signalingStateChange\<close> events
  dispatched, and the invocations of the signal callback (a callback is named by a number).
  \<open>nextSocket\<close> counts the sockets constructed so far and \<open>nextTimer\<close> the timers set.
\<close>

record 'd SignalingService =
  socket :: "WebSocket option"
  onSignalCallback :: "nat option"
  myPublicKey :: "string option"
  reconnectTimeout :: "nat option"
  isExplicitDisconnect :: bool
  signalQueue :: "'d SignalMessage list"
  relayUrl :: string
  currentRoom :: string
  localStorageRelayUrl :: "string option"
  timers :: "(nat \<times> nat) list"
  nextTimer :: nat
  nextSocket :: nat
  wire :: "(nat \<times> 'd SignalMessage) list"
  stateEvents :: "bool list"
  delivered :: "(nat \<times> 'd ParsedFrame) list"

text \<open>
  The service as constructed: \<^verbatim>\<open>relayUrl\<close> is the stored address, or
  \<^verbatim>\<open>ws://localhost:8080\<close> when nothing (or the empty string) is stored.
\<close>

definition newSignalingService :: "string option \<Rightarrow> 'd SignalingService" where
  "newSignalingService stored =
     \<lparr>socket = None, onSignalCallback = None, myPublicKey = None, reconnectTimeout = None,
      isExplicitDisconnect = False, signalQueue = [],
      relayUrl = (case stored of None \<Rightarrow> ''ws://localhost:8080''
                  | Some u \<Rightarrow> if u = [] then ''ws://localhost:8080'' else u),
      currentRoom = ''main'', localStorageRelayUrl = stored,
      timers = [], nextTimer = 0, nextSocket = 0, wire = [], stateEvents = [], delivered = []\<rparr>"

text \<open>JavaScript truthiness of \<^verbatim>\<open>string | null\<close>: \<^verbatim>\<open>null\<close> and the empty string are falsy.\<close>

definition truthy :: "string option \<Rightarrow> bool" where
  "truthy k = (case k of None \<Rightarrow> False | Some s \<Rightarrow> s \<noteq> [])"

definition clearTimeout :: "nat option \<Rightarrow> (nat \<times> nat) list \<Rightarrow> (nat \<times> nat) list" where
  "clearTimeout h ts = filter (\<lambda>t. Some (fst t) \<noteq> h) ts"

text \<open>
  The four handlers set to \<^verbatim>\<open>null\<close>, then \<^verbatim>\<open>close()\<close>: a connecting or open socket
  starts closing, a closing or closed one stays as it is.
\<close>

definition detachAndClose :: "WebSocket \<Rightarrow> WebSocket" where
  "detachAndClose ws =
     ws\<lparr>handlers := False,
        readyState := (if readyState ws = CONNECTING \<or> readyState ws = OPEN then CLOSING
                       else readyState ws)\<rparr>"

definition disconnect :: "'d SignalingService \<Rightarrow> 'd SignalingService" where
  "disconnect st =
     st\<lparr>isExplicitDisconnect := True,
        timers := clearTimeout (reconnectTimeout st) (timers st),
        socket := None,
        signalQueue := [],
        stateEvents := stateEvents st @ [False]\<rparr>"

text \<open>
  \<^verbatim>\<open>connect\<close>: when the constructor throws, the \<^verbatim>\<open>catch\<close> logs and \<^verbatim>\<open>this.socket\<close> keeps the
  old, detached socket (or \<^verbatim>\<open>null\<close>). The pending reconnection timer is not touched.
\<close>

definition connect :: "Browser \<Rightarrow> string \<Rightarrow> nat \<Rightarrow> 'd SignalingService \<Rightarrow> 'd SignalingService" where
  "connect B publicKey onSignal st =
     (let st1 = st\<lparr>myPublicKey := Some publicKey,
                    onSignalCallback := Some onSignal,
                    isExplicitDisconnect := False,
                    socket := map_option detachAndClose (socket st)\<rparr>
      in if webSocketAccepts B (relayUrl st1)
         then st1\<lparr>socket := Some \<lparr>ws_id = nextSocket st1, readyState = CONNECTING, handlers = True\<rparr>,
                  nextSocket := Suc (nextSocket st1)\<rparr>
         else st1)"

definition enqueue :: "'d SignalMessage \<Rightarrow> 'd SignalingService \<Rightarrow> 'd SignalingService" where
  "enqueue msg st = st\<lparr>signalQueue := signalQueue st @ [msg]\<rparr>"

text \<open>
  \<^verbatim>\<open>sendSignal\<close>. The three places where a message is queued are kept apart as in the
  source: no socket or a connecting one; a closing or closed one (\<^verbatim>\<open>readyState > OPEN\<close>),
  where a connection is started when a callback is known; an open one, where the frame is
  handed to \<^verbatim>\<open>socket.send\<close>. The blobs this program sends (session descriptions and ICE
  candidates) always serialize and \<^verbatim>\<open>send\<close> on an open socket does not throw, so the
  \<^verbatim>\<open>catch\<close> around it is not entered.
\<close>

definition sendSignal ::
  "Browser \<Rightarrow> string \<Rightarrow> SignalType \<Rightarrow> 'd \<Rightarrow> 'd SignalingService \<Rightarrow> 'd SignalingService" where
  "sendSignal B to type data st =
     (case myPublicKey st of
        None \<Rightarrow> st
      | Some key \<Rightarrow>
          if key = [] then st
          else
            (let msg = \<lparr>sm_type = type, sm_from = key, sm_to = to, sm_data = data,
                        sm_room = currentRoom st\<rparr>
             in case socket st of
                  None \<Rightarrow>
                    (let st1 = enqueue msg st
                     in case onSignalCallback st1 of
                          None \<Rightarrow> st1
                        | Some cb \<Rightarrow> connect B key cb st1)
                | Some ws \<Rightarrow>
                    if readyState ws = CONNECTING then enqueue msg st
                    else if readyState ws \<noteq> OPEN then
                      (let st1 = enqueue msg st
                       in case onSignalCallback st1 of
                            None \<Rightarrow> st1
                          | Some cb \<Rightarrow> connect B key cb st1)
                    else st\<lparr>wire := wire st @ [(ws_id ws, msg)]\<rparr>))"

text \<open>\<^verbatim>\<open>flushQueue\<close>: the queue is copied and emptied, then each copy goes through \<^verbatim>\<open>sendSignal\<close>.\<close>

definition flushQueue :: "Browser \<Rightarrow> 'd SignalingService \<Rightarrow> 'd SignalingService" where
  "flushQueue B st =
     (if signalQueue st \<noteq> [] then
        (let messages = signalQueue st
         in fold (\<lambda>msg. sendSignal B (sm_to msg) (sm_type msg) (sm_data msg)) messages
              (st\<lparr>signalQueue := []\<rparr>))
      else st)"

subsection \<open>The handlers installed by connect\<close>

definition onopen :: "Browser \<Rightarrow> 'd SignalingService \<Rightarrow> 'd SignalingService" where
  "onopen B st = flushQueue B (st\<lparr>stateEvents := stateEvents st @ [True]\<rparr>)"

definition keyValue :: "string option \<Rightarrow> jsval" where
  "keyValue k = (case k of None \<Rightarrow> JSNull | Some s \<Rightarrow> JSString s)"

text \<open>
  \<^verbatim>\<open>onmessage\<close>. Reading a property of \<^verbatim>\<open>null\<close> throws, and so does \<^verbatim>\<open>msg.from.substring\<close>
  when \<^verbatim>\<open>from\<close> is not a string; the \<^verbatim>\<open>catch\<close> swallows both, as it does the parse error.
  The callback gets the parsed value as it is.
\<close>

definition onmessage :: "'d frame \<Rightarrow> 'd SignalingService \<Rightarrow> 'd SignalingService" where
  "onmessage fr st =
     (case fr of
        NotJSON \<Rightarrow> st
      | JSONNull \<Rightarrow> st
      | JSONValue msg \<Rightarrow>
          if f_to msg = keyValue (myPublicKey st) \<and> f_from msg \<noteq> keyValue (myPublicKey st) then
            (case f_from msg of
               JSString s \<Rightarrow>
                 (case onSignalCallback st of
                    None \<Rightarrow> st
                  | Some cb \<Rightarrow> st\<lparr>delivered := delivered st @ [(cb, msg)]\<rparr>)
             | _ \<Rightarrow> st)
          else st)"

text \<open>\<^verbatim>\<open>onclose\<close>: the old timer is cleared and one of 3000 ms is set.\<close>

definition onclose :: "'d SignalingService \<Rightarrow> 'd SignalingService" where
  "onclose st =
     (let st1 = st\<lparr>stateEvents := stateEvents st @ [False]\<rparr>
      in if \<not> isExplicitDisconnect st1 then
           st1\<lparr>timers := clearTimeout (reconnectTimeout st1) (timers st1) @ [(nextTimer st1, 3000)],
               reconnectTimeout := Some (nextTimer st1),
               nextTimer := Suc (nextTimer st1)\<rparr>
         else st1)"

text \<open>The function given to \<^verbatim>\<open>setTimeout\<close>.\<close>

definition reconnect :: "Browser \<Rightarrow> 'd SignalingService \<Rightarrow> 'd SignalingService" where
  "reconnect B st =
     (case (myPublicKey st, onSignalCallback st) of
        (Some key, Some cb) \<Rightarrow> if key \<noteq> [] then connect B key cb st else st
      | _ \<Rightarrow> st)"

definition setRelayUrl :: "Browser \<Rightarrow> string \<Rightarrow> 'd SignalingService \<Rightarrow> 'd SignalingService" where
  "setRelayUrl B url st =
     (let st1 = st\<lparr>relayUrl := url,
                    localStorageRelayUrl := Some url,
                    currentRoom := (case searchParamRoom B url of
                                      None \<Rightarrow> ''main''
                                    | Some None \<Rightarrow> ''main''
                                    | Some (Some r) \<Rightarrow> if r = [] then ''main'' else r)\<rparr>
      in case socket st1 of
           None \<Rightarrow> st1
         | Some ws \<Rightarrow>
             (let st2 = disconnect st1
              in case (myPublicKey st2, onSignalCallback st2) of
                   (Some key, Some cb) \<Rightarrow> if key \<noteq> [] then connect B key cb st2 else st2
                 | _ \<Rightarrow> st2))"

subsection \<open>What the browser does to the current socket, and timers\<close>

text \<open>
  Events of the socket held in \<^verbatim>\<open>this.socket\<close>. A socket that \<^verbatim>\<open>connect\<close> or
  \<^verbatim>\<open>disconnect\<close> has replaced has no handlers left, so its events do not reach the service.
  The browser changes \<^verbatim>\<open>readyState\<close> first and then calls the handler, if one is installed.
\<close>

definition socket_open :: "Browser \<Rightarrow> 'd SignalingService \<Rightarrow> 'd SignalingService" where
  "socket_open B st =
     (case socket st of
        None \<Rightarrow> st
      | Some ws \<Rightarrow>
          if readyState ws = CONNECTING then
            (let st1 = st\<lparr>socket := Some (ws\<lparr>readyState := OPEN\<rparr>)\<rparr>
             in if handlers ws then onopen B st1 else st1)
          else st)"

definition socket_message :: "'d frame \<Rightarrow> 'd SignalingService \<Rightarrow> 'd SignalingService" where
  "socket_message fr st =
     (case socket st of
        None \<Rightarrow> st
      | Some ws \<Rightarrow> if readyState ws = OPEN \<and> handlers ws then onmessage fr st else st)"

definition socket_close :: "'d SignalingService \<Rightarrow> 'd SignalingService" where
  "socket_close st =
     (case socket st of
        None \<Rightarrow> st
      | Some ws \<Rightarrow>
          if readyState ws \<noteq> CLOSED then
            (let st1 = st\<lparr>socket := Some (ws\<lparr>readyState := CLOSED\<rparr>)\<rparr>
             in if handlers ws then onclose st1 else st1)
          else st)"

text \<open>A pending timer fires: it leaves the pending set and its function runs.\<close>

definition timer_fire :: "Browser \<Rightarrow> nat \<Rightarrow> 'd SignalingService \<Rightarrow> 'd SignalingService" where
  "timer_fire B h st =
     (if h \<in> fst ` set (timers st)
      then reconnect B (st\<lparr>timers := filter (\<lambda>t. fst t \<noteq> h) (timers st)\<rparr>)
      else st)"

text \<open>A call of \<^verbatim>\<open>sendSignal\<close> as a value, and the message it builds for a key and a room.\<close>

type_synonym 'd submission = "string \<times> SignalType \<times> 'd"

definition submit :: "Browser \<Rightarrow> 'd submission \<Rightarrow> 'd SignalingService \<Rightarrow> 'd SignalingService" where
  "submit B s st = sendSignal B (fst s) (fst (snd s)) (snd (snd s)) st"

definition envelope :: "string \<Rightarrow> string \<Rightarrow> 'd submission \<Rightarrow> 'd SignalMessage" where
  "envelope key room s =
     \<lparr>sm_type = fst (snd s), sm_from = key, sm_to = fst s, sm_data = snd (snd s), sm_room = room\<rparr>"

text \<open>A queued message as \<^verbatim>\<open>flushQueue\<close> sends it again: sender and room are set anew.\<close>

definition resent :: "string \<Rightarrow> string \<Rightarrow> 'd SignalMessage \<Rightarrow> 'd SignalMessage" where
  "resent key room msg = msg\<lparr>sm_from := key, sm_room := room\<rparr>"



text \<open>
  A sample browser: every relay address is accepted, none names a room, and a data channel
  takes messages of up to 262144 characters.
\<close>

definition sampleBrowser :: Browser where
  "sampleBrowser = \<lparr>webSocketAccepts = (\<lambda>u. True), searchParamRoom = (\<lambda>u. Some None),
                     channelSendAccepts = (\<lambda>buffered m. length m \<le> 262144)\<rparr>"

definition sampleStart :: "nat SignalingService" where
  "sampleStart = connect sampleBrowser ''A'' 0 (newSignalingService None)"

definition connectionOpen :: "'d SignalingService \<Rightarrow> bool" where
  "connectionOpen st = (case socket st of None \<Rightarrow> False | Some ws \<Rightarrow> readyState ws = OPEN)"

text \<open>
  At most one timer is pending, and it is the one \<^verbatim>\<open>reconnectTimeout\<close> names: what
  \<^verbatim>\<open>clearTimeout(this.reconnectTimeout)\<close> relies on.
\<close>

definition timersTracked :: "'d SignalingService \<Rightarrow> bool" where
  "timersTracked st =
     (case timers st of
        [] \<Rightarrow> True
      | [t] \<Rightarrow> reconnectTimeout st = Some (fst t)
      | _ \<Rightarrow> False)"

section \<open>The peer connection manager\<close>

datatype P2PStatus = offline | connecting | connected

text \<open>\<^verbatim>\<open>RTCDataChannel.readyState\<close> and \<^verbatim>\<open>RTCPeerConnection.iceConnectionState\<close>.\<close>

datatype ChannelState = ch_connecting | ch_open | ch_closing | ch_closed

datatype IceState =
  ice_new | ice_checking | ice_connected | ice_completed | ice_failed | ice_disconnected | ice_closed

text \<open>
  The two kinds of browser objects the manager creates. Each remembers the \<^verbatim>\<open>peerKey\<close> its
  handlers were created with, and whether the handlers are still installed. \<open>dc_sent\<close> is
  what has been handed to \<^verbatim>\<open>channel.send\<close>.
\<close>

record RTCPeerConnection =
  pc_peer :: string
  pc_handlers :: bool
  pc_closed :: bool

record RTCDataChannel =
  dc_peer :: string
  dc_readyState :: ChannelState
  dc_handlers :: bool
  dc_sent :: "string list"

text \<open>
  \<^verbatim>\<open>WebRTCService\<close>. A JavaScript \<^verbatim>\<open>Map\<close> is the list of its entries in insertion order:
  \<^verbatim>\<open>set\<close> replaces the value of a key that is there and appends otherwise, \<^verbatim>\<open>delete\<close>
  removes the entry, \<^verbatim>\<open>clear\<close> removes all. The maps hold references: an object is named by
  a number and lives in \<open>peerConnections\<close> or \<open>channels\<close>, also after the map has dropped it.
  Callbacks are named by numbers; \<open>statusLog\<close> and \<open>messageLog\<close> record their invocations.
  The signaling client is the module-level singleton the manager calls.
\<close>

record 'd WebRTCService =
  connections :: "(string \<times> nat) list"
  dataChannels :: "(string \<times> nat) list"
  statusCallbacks :: "(string \<times> nat) list"
  onMessageCallback :: "nat option"
  rtc_myPublicKey :: string
  peerConnections :: "nat \<Rightarrow> RTCPeerConnection option"
  channels :: "nat \<Rightarrow> RTCDataChannel option"
  nextObject :: nat
  statusLog :: "(nat \<times> P2PStatus) list"
  messageLog :: "(nat \<times> string \<times> string) list"
  signalingService :: "'d SignalingService"

definition newWebRTCService :: "string option \<Rightarrow> 'd WebRTCService" where
  "newWebRTCService stored =
     \<lparr>connections = [], dataChannels = [], statusCallbacks = [], onMessageCallback = None,
      rtc_myPublicKey = [], peerConnections = (\<lambda>n. None), channels = (\<lambda>n. None),
      nextObject = 0, statusLog = [], messageLog = [],
      signalingService = newSignalingService stored\<rparr>"

definition createPeerConnection :: "string \<Rightarrow> 'd WebRTCService \<Rightarrow> nat \<times> 'd WebRTCService" where
  "createPeerConnection peerKey w =
     (let pc = nextObject w
      in (pc, w\<lparr>connections := AList.update peerKey pc (connections w),
                peerConnections := (peerConnections w)
                   (pc \<mapsto> \<lparr>pc_peer = peerKey, pc_handlers = True, pc_closed = False\<rparr>),
                nextObject := Suc pc\<rparr>))"

text \<open>
  A new channel object, from \<^verbatim>\<open>pc.createDataChannel('chat')\<close> or delivered by the remote
  side through \<^verbatim>\<open>ondatachannel\<close>, in the given state and without handlers yet.
\<close>

definition newChannel :: "ChannelState \<Rightarrow> 'd WebRTCService \<Rightarrow> nat \<times> 'd WebRTCService" where
  "newChannel s w =
     (let c = nextObject w
      in (c, w\<lparr>channels := (channels w)
                   (c \<mapsto> \<lparr>dc_peer = [], dc_readyState = s, dc_handlers = False, dc_sent = []\<rparr>),
               nextObject := Suc c\<rparr>))"

definition setupDataChannel :: "string \<Rightarrow> nat \<Rightarrow> 'd WebRTCService \<Rightarrow> 'd WebRTCService" where
  "setupDataChannel peerKey channel w =
     w\<lparr>dataChannels := AList.update peerKey channel (dataChannels w),
       channels := (channels w)
          (channel := map_option (\<lambda>ch. ch\<lparr>dc_peer := peerKey, dc_handlers := True\<rparr>)
                        (channels w channel))\<rparr>"

text \<open>\<^verbatim>\<open>this.dataChannels.get(peerKey)?.readyState === 'open'\<close>\<close>

definition channelOpen :: "'d WebRTCService \<Rightarrow> string \<Rightarrow> bool" where
  "channelOpen w peerKey =
     (case map_of (dataChannels w) peerKey of
        None \<Rightarrow> False
      | Some c \<Rightarrow> (case channels w c of None \<Rightarrow> False | Some ch \<Rightarrow> dc_readyState ch = ch_open))"

definition signal ::
  "Browser \<Rightarrow> string \<Rightarrow> SignalType \<Rightarrow> 'd \<Rightarrow> 'd WebRTCService \<Rightarrow> 'd WebRTCService" where
  "signal B to type data w = w\<lparr>signalingService := sendSignal B to type data (signalingService w)\<rparr>"

text \<open>
  \<^verbatim>\<open>connectToPeer\<close>. The part before the first \<^verbatim>\<open>await\<close> runs at once. \<open>created\<close> is what
  \<^verbatim>\<open>createOffer\<close> and \<^verbatim>\<open>setLocalDescription\<close> come to: \<open>Some offer\<close>, which is then sent, or
  \<open>None\<close> when one of them rejects and the function ends there.
\<close>

definition connectToPeer_start :: "string \<Rightarrow> 'd WebRTCService \<Rightarrow> 'd WebRTCService" where
  "connectToPeer_start peerKey w =
     (let (pc, w1) = createPeerConnection peerKey w;
          (channel, w2) = newChannel ch_connecting w1
      in setupDataChannel peerKey channel w2)"

definition connectToPeer ::
  "Browser \<Rightarrow> 'd option \<Rightarrow> string \<Rightarrow> 'd WebRTCService \<Rightarrow> 'd WebRTCService" where
  "connectToPeer B created peerKey w =
     (if channelOpen w peerKey then w
      else
        (let w1 = connectToPeer_start peerKey w
         in case created of
              None \<Rightarrow> w1
            | Some offer_sdp \<Rightarrow> signal B peerKey offer offer_sdp w1))"

text \<open>
  \<^verbatim>\<open>handleSignal\<close>, called by the signaling client with a parsed frame whose \<^verbatim>\<open>from\<close> is the
  string \<open>sender\<close>. \<open>answered\<close> is what the negotiation calls on an offer come to:
  \<open>Some answer\<close>, or \<open>None\<close> when one throws and the \<^verbatim>\<open>catch\<close> logs it. For an answer, a
  candidate or any other \<^verbatim>\<open>type\<close> only the negotiation object changes, if anything does.
\<close>

definition handleSignal_start :: "string \<Rightarrow> 'd WebRTCService \<Rightarrow> 'd WebRTCService" where
  "handleSignal_start sender w =
     (case map_of (connections w) sender of
        Some pc \<Rightarrow> w
      | None \<Rightarrow> snd (createPeerConnection sender w))"

definition handleSignal ::
  "Browser \<Rightarrow> 'd option \<Rightarrow> string \<Rightarrow> jsval \<Rightarrow> 'd WebRTCService \<Rightarrow> 'd WebRTCService" where
  "handleSignal B answered sender type w =
     (let w1 = handleSignal_start sender w
      in if type = JSString ''offer'' then
           (case answered of
              None \<Rightarrow> w1
            | Some answer_sdp \<Rightarrow> signal B sender answer answer_sdp w1)
         else w1)"

text \<open>
  \<^verbatim>\<open>sendMessage\<close>. \<^verbatim>\<open>channel.send(message)\<close> is called outside any \<^verbatim>\<open>try\<close>, so when it
  throws the exception leaves \<^verbatim>\<open>sendMessage\<close>: the result is \<open>Inl\<close>, nothing was handed to
  the channel and nothing has changed. Otherwise the result is the boolean returned.
\<close>

datatype Thrown = ChannelSendThrows

definition sendMessage ::
  "Browser \<Rightarrow> string \<Rightarrow> string \<Rightarrow> 'd WebRTCService \<Rightarrow> (Thrown + bool) \<times> 'd WebRTCService" where
  "sendMessage B peerKey message w =
     (case map_of (dataChannels w) peerKey of
        None \<Rightarrow> (Inr False, w)
      | Some c \<Rightarrow>
          (case channels w c of
             None \<Rightarrow> (Inr False, w)
           | Some ch \<Rightarrow>
               if dc_readyState ch = ch_open
               then (if channelSendAccepts B (dc_sent ch) message
                     then (Inr True,
                           w\<lparr>channels := (channels w)(c \<mapsto> ch\<lparr>dc_sent := dc_sent ch @ [message]\<rparr>)\<rparr>)
                     else (Inl ChannelSendThrows, w))
               else (Inr False, w)))"

definition onStatusChange :: "string \<Rightarrow> nat \<Rightarrow> 'd WebRTCService \<Rightarrow> 'd WebRTCService" where
  "onStatusChange peerKey callback w =
     w\<lparr>statusCallbacks := AList.update peerKey callback (statusCallbacks w)\<rparr>"

text \<open>\<^verbatim>\<open>this.statusCallbacks.get(peerKey)?.(status)\<close>\<close>

definition reportStatus :: "string \<Rightarrow> P2PStatus \<Rightarrow> 'd WebRTCService \<Rightarrow> 'd WebRTCService" where
  "reportStatus peerKey status w =
     (case map_of (statusCallbacks w) peerKey of
        None \<Rightarrow> w
      | Some cb \<Rightarrow> w\<lparr>statusLog := statusLog w @ [(cb, status)]\<rparr>)"

definition closeChannel :: "RTCDataChannel \<Rightarrow> RTCDataChannel" where
  "closeChannel ch =
     ch\<lparr>dc_handlers := False,
        dc_readyState := (if dc_readyState ch = ch_closed then ch_closed else ch_closing)\<rparr>"

text \<open>
  \<^verbatim>\<open>cleanup\<close>: the channels and connections that the maps hold are detached and closed; an
  object a map no longer holds is not reached.
\<close>

definition cleanup :: "'d WebRTCService \<Rightarrow> 'd WebRTCService" where
  "cleanup w =
     w\<lparr>channels := (\<lambda>n. if n \<in> snd ` set (dataChannels w)
                         then map_option closeChannel (channels w n) else channels w n),
       peerConnections := (\<lambda>n. if n \<in> snd ` set (connections w)
                         then map_option (\<lambda>pc. pc\<lparr>pc_handlers := False, pc_closed := True\<rparr>)
                                (peerConnections w n)
                         else peerConnections w n),
       dataChannels := [],
       connections := [],
       statusCallbacks := [],
       signalingService := disconnect (signalingService w)\<rparr>"

text \<open>\<^verbatim>\<open>init\<close>: the signal callback it registers is callback 0 of the signaling client.\<close>

definition init :: "Browser \<Rightarrow> string \<Rightarrow> nat \<Rightarrow> 'd WebRTCService \<Rightarrow> 'd WebRTCService" where
  "init B key onMessage w =
     (let w1 = cleanup w;
          w2 = w1\<lparr>rtc_myPublicKey := key, onMessageCallback := Some onMessage\<rparr>
      in w2\<lparr>signalingService := connect B key 0 (signalingService w2)\<rparr>)"

subsection \<open>The handlers of channels and connections\<close>

definition channel_onopen :: "nat \<Rightarrow> 'd WebRTCService \<Rightarrow> 'd WebRTCService" where
  "channel_onopen c w =
     (case channels w c of
        None \<Rightarrow> w
      | Some ch \<Rightarrow>
          if dc_readyState ch = ch_connecting then
            (let w1 = w\<lparr>channels := (channels w)(c \<mapsto> ch\<lparr>dc_readyState := ch_open\<rparr>)\<rparr>
             in if dc_handlers ch then reportStatus (dc_peer ch) connected w1 else w1)
          else w)"

text \<open>\<^verbatim>\<open>onclose\<close> removes the entry of its peer key, whichever channel that entry holds.\<close>

definition channel_onclose :: "nat \<Rightarrow> 'd WebRTCService \<Rightarrow> 'd WebRTCService" where
  "channel_onclose c w =
     (case channels w c of
        None \<Rightarrow> w
      | Some ch \<Rightarrow>
          if dc_readyState ch \<noteq> ch_closed then
            (let w1 = w\<lparr>channels := (channels w)(c \<mapsto> ch\<lparr>dc_readyState := ch_closed\<rparr>)\<rparr>
             in if dc_handlers ch then
                  (let w2 = reportStatus (dc_peer ch) offline w1
                   in w2\<lparr>dataChannels := AList.delete (dc_peer ch) (dataChannels w2)\<rparr>)
                else w1)
          else w)"

definition channel_onmessage :: "nat \<Rightarrow> string \<Rightarrow> 'd WebRTCService \<Rightarrow> 'd WebRTCService" where
  "channel_onmessage c data w =
     (case channels w c of
        None \<Rightarrow> w
      | Some ch \<Rightarrow>
          if dc_readyState ch = ch_open \<and> dc_handlers ch then
            (case onMessageCallback w of
               None \<Rightarrow> w
             | Some cb \<Rightarrow> w\<lparr>messageLog := messageLog w @ [(cb, dc_peer ch, data)]\<rparr>)
          else w)"

definition pc_ondatachannel :: "nat \<Rightarrow> ChannelState \<Rightarrow> 'd WebRTCService \<Rightarrow> 'd WebRTCService" where
  "pc_ondatachannel p s w =
     (case peerConnections w p of
        None \<Rightarrow> w
      | Some pc \<Rightarrow>
          if pc_handlers pc \<and> \<not> pc_closed pc then
            (let (channel, w1) = newChannel s w in setupDataChannel (pc_peer pc) channel w1)
          else w)"

definition pc_onicecandidate ::
  "Browser \<Rightarrow> nat \<Rightarrow> 'd option \<Rightarrow> 'd WebRTCService \<Rightarrow> 'd WebRTCService" where
  "pc_onicecandidate B p cand w =
     (case peerConnections w p of
        None \<Rightarrow> w
      | Some pc \<Rightarrow>
          if pc_handlers pc then
            (case cand of None \<Rightarrow> w | Some c \<Rightarrow> signal B (pc_peer pc) candidate c w)
          else w)"

definition iceStatus :: "IceState \<Rightarrow> P2PStatus" where
  "iceStatus s =
     (if s = ice_connected \<or> s = ice_completed then connected
      else if s = ice_checking then connecting
      else offline)"

definition pc_oniceconnectionstatechange :: "nat \<Rightarrow> IceState \<Rightarrow> 'd WebRTCService \<Rightarrow> 'd WebRTCService" where
  "pc_oniceconnectionstatechange p s w =
     (case peerConnections w p of
        None \<Rightarrow> w
      | Some pc \<Rightarrow> if pc_handlers pc then reportStatus (pc_peer pc) (iceStatus s) w else w)"

subsection \<open>Runs of the manager\<close>

text \<open>
  Everything that can happen to the manager, one atomic step each. An \<^verbatim>\<open>async\<close> function
  is the step up to its first \<^verbatim>\<open>await\<close> followed, at any later time, by the step that sends
  what the negotiation produced; other steps may come in between.
\<close>

datatype 'd event =
    Init string nat
  | Cleanup
  | ConnectToPeer string
  | OfferCreated string 'd
  | HandleSignal string
  | AnswerCreated string 'd
  | OnStatusChange string nat
  | SendMessage string string
  | ChannelOpen nat
  | ChannelClose nat
  | ChannelMessage nat string
  | RemoteChannel nat ChannelState
  | IceCandidate nat "'d option"
  | IceStateChange nat IceState

fun step :: "Browser \<Rightarrow> 'd event \<Rightarrow> 'd WebRTCService \<Rightarrow> 'd WebRTCService" where
  "step B (Init key cb) w = init B key cb w"
| "step B Cleanup w = cleanup w"
| "step B (ConnectToPeer k) w = (if channelOpen w k then w else connectToPeer_start k w)"
| "step B (OfferCreated k sdp) w = signal B k offer sdp w"
| "step B (HandleSignal sender) w = handleSignal_start sender w"
| "step B (AnswerCreated sender sdp) w = signal B sender answer sdp w"
| "step B (OnStatusChange k cb) w = onStatusChange k cb w"
| "step B (SendMessage k m) w = snd (sendMessage B k m w)"
| "step B (ChannelOpen c) w = channel_onopen c w"
| "step B (ChannelClose c) w = channel_onclose c w"
| "step B (ChannelMessage c m) w = channel_onmessage c m w"
| "step B (RemoteChannel p s) w = pc_ondatachannel p s w"
| "step B (IceCandidate p c) w = pc_onicecandidate B p c w"
| "step B (IceStateChange p s) w = pc_oniceconnectionstatechange p s w"

definition run :: "Browser \<Rightarrow> 'd event list \<Rightarrow> 'd WebRTCService \<Rightarrow> 'd WebRTCService" where
  "run B es w = fold (step B) es w"

text \<open>The entries a map holds for one key.\<close>

definition entriesFor :: "string \<Rightarrow> (string \<times> nat) list \<Rightarrow> (string \<times> nat) list" where
  "entriesFor k m = filter (\<lambda>e. fst e = k) m"

text \<open>A sample manager: initialised for key \<open>A\<close>, with one call \<^verbatim>\<open>connectToPeer('B')\<close> made.\<close>

definition sampleManager :: "nat WebRTCService" where
  "sampleManager = init sampleBrowser ''A'' 1 (newWebRTCService None)"

definition sampleNegotiating :: "nat WebRTCService" where
  "sampleNegotiating = connectToPeer sampleBrowser (Some 100) ''B'' sampleManager"


text \<open>
  The sample client after its socket has opened, after that socket was lost, and after a
  new \<^verbatim>\<open>connect\<close> while the reconnection timer is pending.
\<close>

definition sampleOpened :: "nat SignalingService" where
  "sampleOpened = socket_open sampleBrowser sampleStart"

definition sampleLost :: "nat SignalingService" where
  "sampleLost = socket_close sampleOpened"

definition sampleReconnected :: "nat SignalingService" where
  "sampleReconnected = connect sampleBrowser ''A'' 0 sampleLost"

text \<open>The sample manager once the channel to \<open>B\<close> (object 1) has opened.\<close>

definition sampleConnected :: "nat WebRTCService" where
  "sampleConnected = channel_onopen 1 sampleNegotiating"

definition keysDistinct :: "'d WebRTCService \<Rightarrow> bool" where
  "keysDistinct w \<longleftrightarrow> distinct (map fst (connections w)) \<and> distinct (map fst (dataChannels w))"

section \<open>Properties of the canonical payloads and of verification\<close>

lemma stringify_emitted: "stringify (JObject ps) = stringify (JObject (emitted ps))"
  by (simp add: emitted_def)

lemma canonicalFile_fields:
  "map_option fileFields f = map_option fileFields f' \<Longrightarrow> canonicalFile f = canonicalFile f'"
  by (cases f; cases f') (simp_all add: canonicalFile_def fileFields_def)

lemma canonicalEvent_fields:
  "map_option (\<lambda>e. (ge_title e, ge_description e, ge_location e, ge_eventTime e)) x =
   map_option (\<lambda>e. (ge_title e, ge_description e, ge_location e, ge_eventTime e)) y
   \<Longrightarrow> canonicalEvent x = canonicalEvent y"
  by (cases x; cases y) (simp_all add: canonicalEvent_def)

lemma canonicalPoll_fields:
  "map_option (\<lambda>p. (gp_question p, gp_options p)) x = map_option (\<lambda>p. (gp_question p, gp_options p)) y
   \<Longrightarrow> canonicalPoll x = canonicalPoll y"
  by (cases x; cases y) (simp_all add: canonicalPoll_def)

lemma canonicalPollVote_fields:
  "map_option (\<lambda>v. (gv_pollId v, gv_optionIndex v)) x = map_option (\<lambda>v. (gv_pollId v, gv_optionIndex v)) y
   \<Longrightarrow> canonicalPollVote x = canonicalPollVote y"
  by (cases x; cases y) (simp_all add: canonicalPollVote_def)

lemma canonicalGroupUpdate_fields:
  "map_option gu_displayPicture x = map_option gu_displayPicture y
   \<Longrightarrow> canonicalGroupUpdate x = canonicalGroupUpdate y"
  by (cases x; cases y) (simp_all add: canonicalGroupUpdate_def)

lemma messagePayload_fields:
  "messageFields m = messageFields m' \<Longrightarrow> messagePayload m = messagePayload m'"
proof -
  assume a: "messageFields m = messageFields m'"
  then have "canonicalFile (m_file m) = canonicalFile (m_file m')"
    by (intro canonicalFile_fields) (simp add: messageFields_def)
  with a show ?thesis
    by (simp add: messageFields_def messagePayload_def)
qed

lemma groupMessagePayload_fields:
  "groupMessageFields g = groupMessageFields g' \<Longrightarrow> groupMessagePayload g = groupMessagePayload g'"
proof -
  assume a: "groupMessageFields g = groupMessageFields g'"
  have "canonicalFile (gm_file g) = canonicalFile (gm_file g')"
    using a by (intro canonicalFile_fields) (simp add: groupMessageFields_def)
  moreover have "canonicalEvent (gm_event g) = canonicalEvent (gm_event g')"
    using a by (intro canonicalEvent_fields) (simp add: groupMessageFields_def)
  moreover have "canonicalPoll (gm_poll g) = canonicalPoll (gm_poll g')"
    using a by (intro canonicalPoll_fields) (simp add: groupMessageFields_def)
  moreover have "canonicalPollVote (gm_pollVote g) = canonicalPollVote (gm_pollVote g')"
    using a by (intro canonicalPollVote_fields) (simp add: groupMessageFields_def)
  moreover have "canonicalGroupUpdate (gm_groupUpdate g) = canonicalGroupUpdate (gm_groupUpdate g')"
    using a by (intro canonicalGroupUpdate_fields) (simp add: groupMessageFields_def)
  ultimately show ?thesis
    using a by (simp add: groupMessageFields_def groupMessagePayload_def)
qed

lemma canonical_undefined_iff:
  "canonicalFile f = JUndefined \<longleftrightarrow> f = None"
  "canonicalEvent e = JUndefined \<longleftrightarrow> e = None"
  "canonicalPoll p = JUndefined \<longleftrightarrow> p = None"
  "canonicalPollVote v = JUndefined \<longleftrightarrow> v = None"
  "canonicalGroupUpdate u = JUndefined \<longleftrightarrow> u = None"
  by (simp_all add: canonicalFile_def canonicalEvent_def canonicalPoll_def canonicalPollVote_def
      canonicalGroupUpdate_def split: option.splits)

lemma message_keys:
  "serializedKeys (messagePayload m) =
     [''contactId'', ''sender'', ''content'', ''timestamp''] @ (if m_file m = None then [] else [''file''])"
  by (simp add: serializedKeys_def emitted_def messagePayload_def canonical_undefined_iff)

lemma group_keys:
  "serializedKeys (groupMessagePayload g) =
     [''groupId'', ''senderKey'', ''timestamp'', ''type'', ''content'']
     @ (if gm_file g = None then [] else [''file''])
     @ (if gm_event g = None then [] else [''event''])
     @ (if gm_poll g = None then [] else [''poll''])
     @ (if gm_pollVote g = None then [] else [''pollVote''])
     @ (if gm_groupUpdate g = None then [] else [''groupUpdate''])"
  by (simp add: serializedKeys_def emitted_def groupMessagePayload_def canonical_undefined_iff)

lemma message_ignores_local_fields:
  "messagePayload (m\<lparr>m_id := i, m_signature := s, m_state := st\<rparr>) = messagePayload m"
  by (simp add: messagePayload_def)

lemma group_ignores_local_fields:
  "groupMessagePayload (g\<lparr>gm_id := j, gm_signature := t\<rparr>) = groupMessagePayload g"
  by (simp add: groupMessagePayload_def)

text \<open>
  The canonical strings of the sample messages: without a file there is no \<^verbatim>\<open>file\<close> key, with
  one the sub-object has its three fields and not the data, and the group message carries
  the one sub-object it has.
\<close>

lemma canonical_without_file:
  \<open>getCanonicalMessagePayload (sampleMessage\<lparr>m_file := None\<rparr>)
   = ''{"contactId":7,"sender":"you","content":"hi","timestamp":1700000000000}''\<close>
  by code_simp

lemma canonical_with_file:
  \<open>getCanonicalMessagePayload sampleMessage
   = ''{"contactId":7,"sender":"you","content":"hi","timestamp":1700000000000,"file":{"name":"a.txt","type":"text/plain","size":12}}''\<close>
  by code_simp

lemma canonical_group_poll:
  \<open>getCanonicalGroupMessagePayload sampleGroupMessage
   = ''{"groupId":"g","senderKey":"","timestamp":1700000000000,"type":"poll","content":"lunch?","poll":{"question":"where","options":["here","there"]}}''\<close>
  by code_simp

text \<open>
  Hex decoding is lenient: \<^verbatim>\<open>zz\<close> decodes to 0, \<^verbatim>\<open>1g\<close> to 1, \<^verbatim>\<open>-1\<close> to 255, and the odd
  last character is dropped.
\<close>

lemma hexToBuffer_lenient: "hexToBuffer ''0aFFzz1g-1abc'' = [10, 255, 0, 1, 255, 171]"
  by code_simp

text \<open>
  C1. The canonical form of a message does not depend on its local identifier \<open>id\<close>, on its
  \<open>signature\<close> or on its delivery \<open>state\<close> (a group message has no state field: \<open>id\<close> and
  \<open>signature\<close>). What is serialized is the object that holds only the properties with a
  defined value: the key of an absent sub-object (\<open>file\<close>, \<open>event\<close>, \<open>poll\<close>, \<open>pollVote\<close>,
  \<open>groupUpdate\<close>) is not in the output at all, and the key of a present one is. Two messages
  that agree on the signed fields have the same canonical string.
\<close>

theorem canonical_projection:
  "getCanonicalMessagePayload (m\<lparr>m_id := i, m_signature := s, m_state := st\<rparr>)
     = getCanonicalMessagePayload m
   \<and> getCanonicalGroupMessagePayload (g\<lparr>gm_id := j, gm_signature := t\<rparr>)
     = getCanonicalGroupMessagePayload g
   \<and> getCanonicalMessagePayload m = stringify (JObject (emitted (messagePayload m)))
   \<and> getCanonicalGroupMessagePayload g = stringify (JObject (emitted (groupMessagePayload g)))
   \<and> serializedKeys (messagePayload m) =
       [''contactId'', ''sender'', ''content'', ''timestamp'']
       @ (if m_file m = None then [] else [''file''])
   \<and> serializedKeys (groupMessagePayload g) =
       [''groupId'', ''senderKey'', ''timestamp'', ''type'', ''content'']
       @ (if gm_file g = None then [] else [''file''])
       @ (if gm_event g = None then [] else [''event''])
       @ (if gm_poll g = None then [] else [''poll''])
       @ (if gm_pollVote g = None then [] else [''pollVote''])
       @ (if gm_groupUpdate g = None then [] else [''groupUpdate''])
   \<and> (messageFields m = messageFields m'
        \<longrightarrow> getCanonicalMessagePayload m = getCanonicalMessagePayload m')
   \<and> (groupMessageFields g = groupMessageFields g'
        \<longrightarrow> getCanonicalGroupMessagePayload g = getCanonicalGroupMessagePayload g')"
proof -
  have a: "getCanonicalMessagePayload (m\<lparr>m_id := i, m_signature := s, m_state := st\<rparr>)
     = getCanonicalMessagePayload m"
    unfolding getCanonicalMessagePayload_def by (simp only: message_ignores_local_fields)
  have b: "getCanonicalGroupMessagePayload (g\<lparr>gm_id := j, gm_signature := t\<rparr>)
     = getCanonicalGroupMessagePayload g"
    unfolding getCanonicalGroupMessagePayload_def by (simp only: group_ignores_local_fields)
  have c: "getCanonicalMessagePayload m = stringify (JObject (emitted (messagePayload m)))"
    unfolding getCanonicalMessagePayload_def by (rule stringify_emitted)
  have d: "getCanonicalGroupMessagePayload g = stringify (JObject (emitted (groupMessagePayload g)))"
    unfolding getCanonicalGroupMessagePayload_def by (rule stringify_emitted)
  have e: "messageFields m = messageFields m'
        \<longrightarrow> getCanonicalMessagePayload m = getCanonicalMessagePayload m'"
    unfolding getCanonicalMessagePayload_def using messagePayload_fields [of m m'] by auto
  have f: "groupMessageFields g = groupMessageFields g'
        \<longrightarrow> getCanonicalGroupMessagePayload g = getCanonicalGroupMessagePayload g'"
    unfolding getCanonicalGroupMessagePayload_def using groupMessagePayload_fields [of g g'] by auto
  from a b c d message_keys [of m] group_keys [of g] e f show ?thesis
    by (intro conjI)
qed

text \<open>
  An instance: the sample message and a copy with another identifier, a signature attached,
  another delivery state and other file bytes carry the same signed fields, hence the same
  canonical string; likewise for the sample group message.
\<close>

theorem canonical_projection_witness:
  "messageFields sampleMessage =
     messageFields (sampleMessage\<lparr>m_id := 2, m_signature := ''3045'', m_state := received,
                      m_file := Some (sampleFile\<lparr>mf_data := []\<rparr>)\<rparr>)
   \<and> getCanonicalMessagePayload sampleMessage =
     getCanonicalMessagePayload (sampleMessage\<lparr>m_id := 2, m_signature := ''3045'', m_state := received,
                      m_file := Some (sampleFile\<lparr>mf_data := []\<rparr>)\<rparr>)
   \<and> groupMessageFields sampleGroupMessage =
     groupMessageFields (sampleGroupMessage\<lparr>gm_id := 5, gm_signature := ''3045''\<rparr>)
   \<and> getCanonicalGroupMessagePayload sampleGroupMessage =
     getCanonicalGroupMessagePayload (sampleGroupMessage\<lparr>gm_id := 5, gm_signature := ''3045''\<rparr>)"
proof -
  have h1: "messageFields sampleMessage =
     messageFields (sampleMessage\<lparr>m_id := 2, m_signature := ''3045'', m_state := received,
                      m_file := Some (sampleFile\<lparr>mf_data := []\<rparr>)\<rparr>)"
    by (simp add: messageFields_def sampleMessage_def fileFields_def)
  have h2: "groupMessageFields sampleGroupMessage =
     groupMessageFields (sampleGroupMessage\<lparr>gm_id := 5, gm_signature := ''3045''\<rparr>)"
    by (simp add: groupMessageFields_def)
  from h1 h2
    canonical_projection [where m = sampleMessage and g = sampleGroupMessage
      and m' = "sampleMessage\<lparr>m_id := 2, m_signature := ''3045'', m_state := received,
                      m_file := Some (sampleFile\<lparr>mf_data := []\<rparr>)\<rparr>"
      and g' = "sampleGroupMessage\<lparr>gm_id := 5, gm_signature := ''3045''\<rparr>"]
  show ?thesis by blast
qed










section \<open>Properties of the signaling client\<close>

lemma connect_fields:
  "myPublicKey (connect B k cb st) = Some k"
  "onSignalCallback (connect B k cb st) = Some cb"
  "signalQueue (connect B k cb st) = signalQueue st"
  "wire (connect B k cb st) = wire st"
  "currentRoom (connect B k cb st) = currentRoom st"
  "timers (connect B k cb st) = timers st"
  "reconnectTimeout (connect B k cb st) = reconnectTimeout st"
  "delivered (connect B k cb st) = delivered st"
  "isExplicitDisconnect (connect B k cb st) = False"
  by (simp_all add: connect_def Let_def)

lemma connect_not_open: "\<not> connectionOpen (connect B k cb st)"
  by (cases "socket st")
     (simp_all add: connect_def Let_def connectionOpen_def detachAndClose_def)

lemma connect_accepted:
  "webSocketAccepts B (relayUrl st) \<Longrightarrow>
   socket (connect B k cb st) = Some \<lparr>ws_id = nextSocket st, readyState = CONNECTING, handlers = True\<rparr>"
  by (simp add: connect_def Let_def)

lemma connectionOpen_simps:
  "connectionOpen (enqueue m st) = connectionOpen st"
  "connectionOpen (st\<lparr>signalQueue := q\<rparr>) = connectionOpen st"
  "connectionOpen (st\<lparr>wire := w\<rparr>) = connectionOpen st"
  "connectionOpen (st\<lparr>stateEvents := ev\<rparr>) = connectionOpen st"
  by (simp_all add: connectionOpen_def enqueue_def)

lemma sendSignal_queues:
  assumes "\<not> connectionOpen st" "myPublicKey st = Some key" "key \<noteq> []"
  shows "sendSignal B to ty d st = enqueue (envelope key (currentRoom st) (to, ty, d)) st
       \<or> (\<exists>cb. sendSignal B to ty d st
                = connect B key cb (enqueue (envelope key (currentRoom st) (to, ty, d)) st))"
  using assms
  by (auto simp: sendSignal_def Let_def envelope_def connectionOpen_def split: option.splits)

lemma sendSignal_not_open:
  assumes "\<not> connectionOpen st" "myPublicKey st = Some key" "key \<noteq> []"
  shows "signalQueue (sendSignal B to ty d st)
           = signalQueue st @ [envelope key (currentRoom st) (to, ty, d)]"
    and "wire (sendSignal B to ty d st) = wire st"
    and "\<not> connectionOpen (sendSignal B to ty d st)"
    and "myPublicKey (sendSignal B to ty d st) = Some key"
    and "currentRoom (sendSignal B to ty d st) = currentRoom st"
  using sendSignal_queues [OF assms, of B to ty d] assms
  by (auto simp: connect_fields connect_not_open connectionOpen_simps enqueue_def)

lemma sendSignal_open:
  assumes "socket st = Some ws" "readyState ws = OPEN" "myPublicKey st = Some key" "key \<noteq> []"
  shows "sendSignal B to ty d st
           = st\<lparr>wire := wire st @ [(ws_id ws, envelope key (currentRoom st) (to, ty, d))]\<rparr>"
  using assms by (simp add: sendSignal_def Let_def envelope_def)

lemma fold_send_open:
  assumes "socket st = Some ws" "readyState ws = OPEN" "myPublicKey st = Some key" "key \<noteq> []"
  shows "fold (\<lambda>msg. sendSignal B (sm_to msg) (sm_type msg) (sm_data msg)) msgs st
         = st\<lparr>wire := wire st @ map (\<lambda>m. (ws_id ws, resent key (currentRoom st) m)) msgs\<rparr>"
  using assms
proof (induction msgs arbitrary: st)
  case Nil
  then show ?case by simp
next
  case (Cons m msgs)
  have "sendSignal B (sm_to m) (sm_type m) (sm_data m) st
        = st\<lparr>wire := wire st @ [(ws_id ws, resent key (currentRoom st) m)]\<rparr>"
    using Cons.prems by (simp add: sendSignal_open envelope_def resent_def)
  then show ?case using Cons by simp
qed

lemma socket_open_flushes:
  assumes "socket st = Some ws" "readyState ws = CONNECTING" "handlers ws"
    "myPublicKey st = Some key" "key \<noteq> []"
  shows "socket_open B st =
           st\<lparr>socket := Some (ws\<lparr>readyState := OPEN\<rparr>),
              stateEvents := stateEvents st @ [True],
              signalQueue := [],
              wire := wire st @ map (\<lambda>m. (ws_id ws, resent key (currentRoom st) m)) (signalQueue st)\<rparr>"
proof -
  let ?st1 = "st\<lparr>socket := Some (ws\<lparr>readyState := OPEN\<rparr>), stateEvents := stateEvents st @ [True]\<rparr>"
  have "socket_open B st = flushQueue B ?st1"
    using assms by (simp add: socket_open_def onopen_def Let_def)
  also have "\<dots> = ?st1\<lparr>signalQueue := [],
        wire := wire st @ map (\<lambda>m. (ws_id ws, resent key (currentRoom st) m)) (signalQueue st)\<rparr>"
  proof (cases "signalQueue st = []")
    case True
    then show ?thesis by (simp add: flushQueue_def)
  next
    case False
    then show ?thesis
      using assms
        fold_send_open [of "?st1\<lparr>signalQueue := []\<rparr>" "ws\<lparr>readyState := OPEN\<rparr>" key B "signalQueue st"]
      by (simp add: flushQueue_def Let_def)
  qed
  finally show ?thesis by simp
qed

lemma fold_submit_not_open:
  assumes "\<not> connectionOpen st" "myPublicKey st = Some key" "key \<noteq> []"
  shows "signalQueue (fold (submit B) es st) = signalQueue st @ map (envelope key (currentRoom st)) es
       \<and> wire (fold (submit B) es st) = wire st
       \<and> \<not> connectionOpen (fold (submit B) es st)
       \<and> myPublicKey (fold (submit B) es st) = Some key
       \<and> currentRoom (fold (submit B) es st) = currentRoom st"
  using assms
proof (induction es arbitrary: st)
  case Nil
  then show ?case by simp
next
  case (Cons e es)
  let ?st1 = "submit B e st"
  have s: "signalQueue ?st1 = signalQueue st @ [envelope key (currentRoom st) e]"
    "wire ?st1 = wire st" "\<not> connectionOpen ?st1" "myPublicKey ?st1 = Some key"
    "currentRoom ?st1 = currentRoom st"
    using sendSignal_not_open [OF Cons.prems, of B "fst e" "fst (snd e)" "snd (snd e)"]
    by (simp_all add: submit_def)
  from Cons.IH [OF s(3) s(4) Cons.prems(3)] s show ?case by simp
qed

lemma fold_submit_open:
  assumes "socket st = Some ws" "readyState ws = OPEN" "myPublicKey st = Some key" "key \<noteq> []"
  shows "fold (submit B) es st
         = st\<lparr>wire := wire st @ map (\<lambda>e. (ws_id ws, envelope key (currentRoom st) e)) es\<rparr>"
  using assms
proof (induction es arbitrary: st)
  case Nil
  then show ?case by simp
next
  case (Cons e es)
  have "submit B e st = st\<lparr>wire := wire st @ [(ws_id ws, envelope key (currentRoom st) e)]\<rparr>"
    using sendSignal_open [OF Cons.prems, of B "fst e" "fst (snd e)" "snd (snd e)"]
    by (simp add: submit_def)
  then show ?case using Cons by simp
qed

lemma resent_envelope: "resent key room (envelope key room e) = envelope key room e"
  by (simp add: resent_def envelope_def)

text \<open>
  The run the queue exists for: submissions while the connection is not open, the open
  event, submissions afterwards.
\<close>

lemma queue_then_open_then_send:
  assumes "\<not> connectionOpen st" "myPublicKey st = Some key" "key \<noteq> []"
    and "socket (fold (submit B) es1 st) = Some ws" "readyState ws = CONNECTING" "handlers ws"
  shows "wire (fold (submit B) es2 (socket_open B (fold (submit B) es1 st)))
           = wire st @ map (Pair (ws_id ws))
               (map (resent key (currentRoom st)) (signalQueue st)
                @ map (envelope key (currentRoom st)) es1
                @ map (envelope key (currentRoom st)) es2)"
    and "signalQueue (fold (submit B) es2 (socket_open B (fold (submit B) es1 st))) = []"
proof -
  let ?st1 = "fold (submit B) es1 st"
  let ?room = "currentRoom st"
  have q: "signalQueue ?st1 = signalQueue st @ map (envelope key ?room) es1"
    and w: "wire ?st1 = wire st" and k: "myPublicKey ?st1 = Some key"
    and r: "currentRoom ?st1 = ?room"
    using fold_submit_not_open [OF assms(1-3), of B es1] by simp_all
  let ?st2 = "socket_open B ?st1"
  have o: "?st2 = ?st1\<lparr>socket := Some (ws\<lparr>readyState := OPEN\<rparr>),
              stateEvents := stateEvents ?st1 @ [True],
              signalQueue := [],
              wire := wire ?st1 @ map (\<lambda>m. (ws_id ws, resent key (currentRoom ?st1) m)) (signalQueue ?st1)\<rparr>"
    by (rule socket_open_flushes [OF assms(4) assms(5) assms(6) k assms(3)])
  have s2: "socket ?st2 = Some (ws\<lparr>readyState := OPEN\<rparr>)" "myPublicKey ?st2 = Some key"
    "currentRoom ?st2 = ?room" "signalQueue ?st2 = []"
    "wire ?st2 = wire st @ map (\<lambda>m. (ws_id ws, resent key ?room m)) (signalQueue ?st1)"
    by (simp_all add: o k r w)
  have f: "fold (submit B) es2 ?st2
         = ?st2\<lparr>wire := wire ?st2 @ map (\<lambda>e. (ws_id ws, envelope key (currentRoom ?st2) e)) es2\<rparr>"
    using fold_submit_open [OF s2(1) _ s2(2) assms(3), of B es2] by simp
  show "wire (fold (submit B) es2 ?st2)
           = wire st @ map (Pair (ws_id ws))
               (map (resent key ?room) (signalQueue st)
                @ map (envelope key ?room) es1 @ map (envelope key ?room) es2)"
    by (simp add: f s2 q resent_envelope)
  show "signalQueue (fold (submit B) es2 ?st2) = []"
    by (simp add: f s2)
qed

text \<open>
  C4. Take the client in any state where the connection is not open and an identity is
  set, let it receive the submissions \<open>es1\<close>, and let the socket it then holds open. What
  has then been handed to that socket is, in this order: what was queued before, the
  submissions \<open>es1\<close> in the order they came, and after them the submissions \<open>es2\<close> made once
  the connection is open; each exactly once, and the queue is empty.
\<close>

theorem queued_envelopes_flush_in_order:
  assumes "\<not> connectionOpen st" and "myPublicKey st = Some key" and "key \<noteq> []"
    and "socket (fold (submit B) es1 st) = Some ws"
    and "readyState ws = CONNECTING" and "handlers ws"
  shows "wire (fold (submit B) es2 (socket_open B (fold (submit B) es1 st)))
           = wire st @ map (Pair (ws_id ws))
               (map (resent key (currentRoom st)) (signalQueue st)
                @ map (envelope key (currentRoom st)) es1
                @ map (envelope key (currentRoom st)) es2)
       \<and> signalQueue (fold (submit B) es2 (socket_open B (fold (submit B) es1 st))) = []
       \<and> signalQueue (fold (submit B) es1 st)
           = signalQueue st @ map (envelope key (currentRoom st)) es1
       \<and> wire (fold (submit B) es1 st) = wire st"
  using queue_then_open_then_send [OF assms, of es2] fold_submit_not_open [OF assms(1-3), of B es1]
  by simp

text \<open>
  An instance: after \<^verbatim>\<open>connect\<close>, an offer and a candidate are submitted while the socket is
  connecting, the socket opens, and an answer is submitted; the three frames are on the
  wire in that order.
\<close>

theorem queued_envelopes_flush_in_order_witness:
  "\<not> connectionOpen sampleStart \<and> myPublicKey sampleStart = Some ''A'' \<and> ''A'' \<noteq> []
   \<and> socket (fold (submit sampleBrowser) [(''B'', offer, 1), (''B'', candidate, 2)] sampleStart)
       = Some \<lparr>ws_id = 0, readyState = CONNECTING, handlers = True\<rparr>
   \<and> wire (fold (submit sampleBrowser) [(''C'', answer, 3)]
        (socket_open sampleBrowser
          (fold (submit sampleBrowser) [(''B'', offer, 1), (''B'', candidate, 2)] sampleStart)))
     = [(0, \<lparr>sm_type = offer, sm_from = ''A'', sm_to = ''B'', sm_data = 1, sm_room = ''main''\<rparr>),
        (0, \<lparr>sm_type = candidate, sm_from = ''A'', sm_to = ''B'', sm_data = 2, sm_room = ''main''\<rparr>),
        (0, \<lparr>sm_type = answer, sm_from = ''A'', sm_to = ''C'', sm_data = 3, sm_room = ''main''\<rparr>)]"
proof -
  have h1: "\<not> connectionOpen sampleStart"
    by (simp add: sampleStart_def connect_not_open)
  have h2: "myPublicKey sampleStart = Some ''A''"
    by (simp add: sampleStart_def connect_fields)
  have h3: "''A'' \<noteq> []" by simp
  have h4: "socket (fold (submit sampleBrowser) [(''B'', offer, 1), (''B'', candidate, 2)] sampleStart)
       = Some \<lparr>ws_id = 0, readyState = CONNECTING, handlers = True\<rparr>"
    by (simp add: sampleStart_def connect_def newSignalingService_def sampleBrowser_def
        submit_def sendSignal_def enqueue_def Let_def)
  have h5: "signalQueue sampleStart = []" "wire sampleStart = []" "currentRoom sampleStart = ''main''"
    by (simp_all add: sampleStart_def connect_fields newSignalingService_def)
  from queued_envelopes_flush_in_order [OF h1 h2 h3 h4, of "[(''C'', answer, 3)]"] h1 h2 h3 h4 h5
  show ?thesis by (simp add: envelope_def)
qed

lemma disconnect_fields:
  "signalQueue (disconnect st) = []"
  "wire (disconnect st) = wire st"
  "socket (disconnect st) = None"
  "myPublicKey (disconnect st) = myPublicKey st"
  "onSignalCallback (disconnect st) = onSignalCallback st"
  "currentRoom (disconnect st) = currentRoom st"
  "relayUrl (disconnect st) = relayUrl st"
  "nextSocket (disconnect st) = nextSocket st"
  "isExplicitDisconnect (disconnect st)"
  by (simp_all add: disconnect_def)

lemma disconnect_not_open: "\<not> connectionOpen (disconnect st)"
  by (simp add: connectionOpen_def disconnect_def)

lemma socket_open_empty_queue:
  "signalQueue st = [] \<Longrightarrow> wire (socket_open B st) = wire st"
  by (simp add: socket_open_def onopen_def flushQueue_def Let_def split: option.splits)

lemma setRelayUrl_with_socket:
  assumes "socket st \<noteq> None"
  shows "signalQueue (setRelayUrl B url st) = []" and "wire (setRelayUrl B url st) = wire st"
  using assms
  by (auto simp: setRelayUrl_def Let_def connect_fields disconnect_fields
      split: option.splits)

text \<open>
  C9. \<^verbatim>\<open>disconnect\<close> leaves the queue empty and sends nothing. When the client connects again
  and the new socket opens, nothing is sent; and when submissions \<open>es1\<close> are made while the
  new socket is connecting and \<open>es2\<close> after it has opened, the new socket carries these
  submissions and nothing of what was queued before the disconnect. \<^verbatim>\<open>setRelayUrl\<close> on a
  client that holds a socket goes through \<^verbatim>\<open>disconnect\<close>: the queue is empty afterwards,
  nothing was sent, and nothing is sent when the new socket opens.
\<close>

theorem disconnect_drops_queue:
  "signalQueue (disconnect st) = []
   \<and> wire (disconnect st) = wire st
   \<and> wire (socket_open B (connect B k cb (disconnect st))) = wire st
   \<and> (k \<noteq> [] \<and> webSocketAccepts B (relayUrl st) \<longrightarrow>
        wire (fold (submit B) es2 (socket_open B (fold (submit B) es1 (connect B k cb (disconnect st)))))
          = wire st @ map (Pair (nextSocket st))
              (map (envelope k (currentRoom st)) es1 @ map (envelope k (currentRoom st)) es2))
   \<and> (socket st \<noteq> None \<longrightarrow>
        signalQueue (setRelayUrl B url st) = []
        \<and> wire (setRelayUrl B url st) = wire st
        \<and> wire (socket_open B (setRelayUrl B url st)) = wire st)"
proof (intro conjI impI)
  show "signalQueue (disconnect st) = []" by (rule disconnect_fields)
  show "wire (disconnect st) = wire st" by (rule disconnect_fields)
  show "wire (socket_open B (connect B k cb (disconnect st))) = wire st"
    using socket_open_empty_queue [of "connect B k cb (disconnect st)" B]
    by (simp add: connect_fields disconnect_fields)
next
  assume a: "k \<noteq> [] \<and> webSocketAccepts B (relayUrl st)"
  let ?st0 = "connect B k cb (disconnect st)"
  let ?ws = "\<lparr>ws_id = nextSocket st, readyState = CONNECTING, handlers = True\<rparr>"
  have n: "\<not> connectionOpen ?st0" by (rule connect_not_open)
  have key: "myPublicKey ?st0 = Some k" by (simp add: connect_fields)
  have s0: "socket ?st0 = Some ?ws"
    using a connect_accepted [of B "disconnect st" k cb] by (simp add: disconnect_fields)
  have s1: "socket (fold (submit B) es1 ?st0) = Some ?ws"
    using s0 a key
  proof (induction es1 arbitrary: cb rule: rev_induct)
    case Nil
    then show ?case by simp
  next
    case (snoc e es)
    let ?p = "fold (submit B) es (connect B k cb (disconnect st))"
    have p: "socket ?p = Some ?ws" using snoc by simp
    have "myPublicKey ?p = Some k"
      using fold_submit_not_open [of "connect B k cb (disconnect st)" k B es] a
      by (simp add: connect_not_open connect_fields)
    then have "socket (submit B e ?p) = Some ?ws"
      using p a by (simp add: submit_def sendSignal_def Let_def enqueue_def)
    then show ?case by simp
  qed
  have "wire (fold (submit B) es2 (socket_open B (fold (submit B) es1 ?st0)))
          = wire ?st0 @ map (Pair (ws_id ?ws))
               (map (resent k (currentRoom ?st0)) (signalQueue ?st0)
                @ map (envelope k (currentRoom ?st0)) es1
                @ map (envelope k (currentRoom ?st0)) es2)"
    using a by (intro queue_then_open_then_send(1) [OF n key _ s1]) simp_all
  then show "wire (fold (submit B) es2 (socket_open B (fold (submit B) es1 ?st0)))
          = wire st @ map (Pair (nextSocket st))
              (map (envelope k (currentRoom st)) es1 @ map (envelope k (currentRoom st)) es2)"
    by (simp add: connect_fields disconnect_fields)
next
  assume s: "socket st \<noteq> None"
  show "signalQueue (setRelayUrl B url st) = []" by (rule setRelayUrl_with_socket [OF s])
  show "wire (setRelayUrl B url st) = wire st" by (rule setRelayUrl_with_socket [OF s])
  show "wire (socket_open B (setRelayUrl B url st)) = wire st"
    using socket_open_empty_queue [of "setRelayUrl B url st" B] setRelayUrl_with_socket [OF s, of B url]
    by simp
qed

text \<open>
  An instance: an offer is queued on the connecting socket, the client disconnects and
  connects again, a candidate is submitted and the new socket opens; only the candidate is
  sent. Changing the relay address instead of disconnecting empties the queue as well.
\<close>

theorem disconnect_drops_queue_witness:
  "signalQueue (submit sampleBrowser (''B'', offer, 5) sampleStart)
     = [\<lparr>sm_type = offer, sm_from = ''A'', sm_to = ''B'', sm_data = 5, sm_room = ''main''\<rparr>]
   \<and> ''A'' \<noteq> []
   \<and> webSocketAccepts sampleBrowser (relayUrl (submit sampleBrowser (''B'', offer, 5) sampleStart))
   \<and> wire (fold (submit sampleBrowser) []
        (socket_open sampleBrowser
          (fold (submit sampleBrowser) [(''B'', candidate, 6)]
            (connect sampleBrowser ''A'' 0
              (disconnect (submit sampleBrowser (''B'', offer, 5) sampleStart))))))
     = [(1, \<lparr>sm_type = candidate, sm_from = ''A'', sm_to = ''B'', sm_data = 6, sm_room = ''main''\<rparr>)]
   \<and> socket (submit sampleBrowser (''B'', offer, 5) sampleStart) \<noteq> None
   \<and> signalQueue (setRelayUrl sampleBrowser ''ws://relay:8080''
        (submit sampleBrowser (''B'', offer, 5) sampleStart)) = []"
proof -
  let ?st = "submit sampleBrowser (''B'', offer, 5) sampleStart"
  have e: "?st = sampleStart\<lparr>signalQueue :=
       [\<lparr>sm_type = offer, sm_from = ''A'', sm_to = ''B'', sm_data = 5, sm_room = ''main''\<rparr>]\<rparr>"
    by (simp add: sampleStart_def connect_def newSignalingService_def sampleBrowser_def
        submit_def sendSignal_def enqueue_def Let_def)
  have h1: "signalQueue ?st
     = [\<lparr>sm_type = offer, sm_from = ''A'', sm_to = ''B'', sm_data = 5, sm_room = ''main''\<rparr>]"
    by (simp add: e)
  have h2: "''A'' \<noteq> [] \<and> webSocketAccepts sampleBrowser (relayUrl ?st)"
    by (simp add: sampleBrowser_def)
  have h3: "socket ?st \<noteq> None"
    unfolding e by (simp add: sampleStart_def connect_def Let_def sampleBrowser_def)
  have h4: "wire ?st = []" "nextSocket ?st = 1" "currentRoom ?st = ''main''"
    unfolding e
    by (simp_all add: sampleStart_def connect_def Let_def sampleBrowser_def newSignalingService_def)
  from disconnect_drops_queue [of ?st sampleBrowser "''A''" 0 "[]" "[(''B'', candidate, 6)]"
      "''ws://relay:8080''"] h1 h2 h3 h4
  show ?thesis by (simp add: envelope_def)
qed

text \<open>
  C10. While no identity is set (\<^verbatim>\<open>myPublicKey\<close> is \<^verbatim>\<open>null\<close>, as it is until the first
  \<^verbatim>\<open>connect\<close>), \<^verbatim>\<open>sendSignal\<close> returns at its first line: the state of the client is the
  same afterwards, so nothing was sent, nothing was queued and no socket was constructed.
\<close>

theorem send_without_identity_is_dropped:
  "myPublicKey st = None \<Longrightarrow> sendSignal B to ty d st = st"
  by (simp add: sendSignal_def)

theorem send_without_identity_is_dropped_witness:
  "myPublicKey (newSignalingService None :: nat SignalingService) = None
   \<and> sendSignal sampleBrowser ''B'' offer (1::nat) (newSignalingService None) = newSignalingService None
   \<and> wire (sendSignal sampleBrowser ''B'' offer (1::nat) (newSignalingService None)) = []
   \<and> signalQueue (sendSignal sampleBrowser ''B'' offer (1::nat) (newSignalingService None)) = []
   \<and> socket (sendSignal sampleBrowser ''B'' offer (1::nat) (newSignalingService None)) = None
   \<and> nextSocket (sendSignal sampleBrowser ''B'' offer (1::nat) (newSignalingService None)) = 0"
proof -
  have h: "myPublicKey (newSignalingService None :: nat SignalingService) = None"
    by (simp add: newSignalingService_def)
  from send_without_identity_is_dropped [OF h, of sampleBrowser "''B''" offer 1] h
  show ?thesis by (simp add: newSignalingService_def)
qed

subsection \<open>Incoming frames\<close>




subsection \<open>Reconnection\<close>

lemma onclose_schedules_one:
  assumes "timersTracked st" "\<not> isExplicitDisconnect st"
  shows "timers (onclose st) = [(nextTimer st, 3000)]"
    and "reconnectTimeout (onclose st) = Some (nextTimer st)"
  using assms
  by (auto simp: onclose_def Let_def timersTracked_def clearTimeout_def split: list.splits)

lemma disconnect_cancels:
  assumes "timersTracked st"
  shows "timers (disconnect st) = []"
  using assms
  by (auto simp: disconnect_def timersTracked_def clearTimeout_def split: list.splits)

lemma timer_fire_none: "timers st = [] \<Longrightarrow> timer_fire B h st = st"
  by (simp add: timer_fire_def)

lemma socket_close_none: "socket st = None \<Longrightarrow> socket_close st = st"
  by (simp add: socket_close_def)

lemma after_disconnect_nothing_fires:
  assumes "timersTracked st"
  shows "timer_fire B h (disconnect st) = disconnect st"
    and "socket_close (disconnect st) = disconnect st"
  using disconnect_cancels [OF assms]
  by (simp_all add: timer_fire_none socket_close_none disconnect_fields)

lemma timersTracked_same:
  "timers st' = timers st \<Longrightarrow> reconnectTimeout st' = reconnectTimeout st
   \<Longrightarrow> timersTracked st' = timersTracked st"
  by (simp add: timersTracked_def split: list.splits)

lemma timersTracked_connect: "timersTracked st \<Longrightarrow> timersTracked (connect B k cb st)"
  using timersTracked_same [of "connect B k cb st" st] by (simp add: connect_fields)

lemma timersTracked_enqueue: "timersTracked st \<Longrightarrow> timersTracked (enqueue m st)"
  using timersTracked_same [of "enqueue m st" st] by (simp add: enqueue_def)

lemma timersTracked_kept:
  assumes "timersTracked st"
  shows "timersTracked (disconnect st)"
    and "timersTracked (onclose st)" and "timersTracked (sendSignal B to ty d st)"
    and "timersTracked (onmessage fr st)"
proof -
  show "timersTracked (disconnect st)"
    using disconnect_cancels [OF assms] by (simp add: timersTracked_def)
  show "timersTracked (onclose st)"
    using assms
    by (auto simp: onclose_def Let_def timersTracked_def clearTimeout_def split: list.splits)
  have w: "timersTracked (st\<lparr>wire := x\<rparr>)" for x
    using assms timersTracked_same [of "st\<lparr>wire := x\<rparr>" st] by simp
  show "timersTracked (sendSignal B to ty d st)"
    using assms w
    by (simp add: sendSignal_def Let_def timersTracked_connect timersTracked_enqueue
        split: option.splits)
  have "timersTracked (st\<lparr>delivered := x\<rparr>)" for x
    using assms timersTracked_same [of "st\<lparr>delivered := x\<rparr>" st] by simp
  then show "timersTracked (onmessage fr st)"
    using assms
    by (simp add: onmessage_def split: frame.splits jsval.splits option.splits)
qed

text \<open>
  C6, at the run where it fails. The socket of the sample client opens and is then lost:
  one timer of 3000 ms is pending. A new \<^verbatim>\<open>connect\<close> then constructs socket 1 and leaves
  that timer pending; when the timer fires, \<^verbatim>\<open>connect\<close> runs once more, detaches socket 1
  and constructs socket 2.
\<close>

theorem stale_reconnect_after_connect:
  "timers sampleLost = [(0, 3000)]
   \<and> socket sampleReconnected = Some \<lparr>ws_id = 1, readyState = CONNECTING, handlers = True\<rparr>
   \<and> timers sampleReconnected = [(0, 3000)]
   \<and> socket (timer_fire sampleBrowser 0 sampleReconnected)
       = Some \<lparr>ws_id = 2, readyState = CONNECTING, handlers = True\<rparr>
   \<and> nextSocket (timer_fire sampleBrowser 0 sampleReconnected) = 3"
proof -
  have o: "sampleOpened = sampleStart
      \<lparr>socket := Some \<lparr>ws_id = 0, readyState = OPEN, handlers = True\<rparr>, stateEvents := [True]\<rparr>"
    by (simp add: sampleOpened_def sampleStart_def socket_open_def onopen_def flushQueue_def
        connect_def Let_def newSignalingService_def sampleBrowser_def)
  have l: "sampleLost = sampleStart
      \<lparr>socket := Some \<lparr>ws_id = 0, readyState = CLOSED, handlers = True\<rparr>,
         stateEvents := [True, False], timers := [(0, 3000)], reconnectTimeout := Some 0,
         nextTimer := 1\<rparr>"
    unfolding sampleLost_def o
    by (simp add: sampleStart_def socket_close_def onclose_def clearTimeout_def
        connect_def Let_def newSignalingService_def sampleBrowser_def)
  have r: "sampleReconnected = sampleStart
      \<lparr>socket := Some \<lparr>ws_id = 1, readyState = CONNECTING, handlers = True\<rparr>,
         stateEvents := [True, False], timers := [(0, 3000)], reconnectTimeout := Some 0,
         nextTimer := 1, nextSocket := 2\<rparr>"
    unfolding sampleReconnected_def l
    by (simp add: sampleStart_def connect_def Let_def newSignalingService_def sampleBrowser_def
        detachAndClose_def)
  have f: "timer_fire sampleBrowser 0 sampleReconnected = sampleStart
      \<lparr>socket := Some \<lparr>ws_id = 2, readyState = CONNECTING, handlers = True\<rparr>,
         stateEvents := [True, False], timers := [], reconnectTimeout := Some 0,
         nextTimer := 1, nextSocket := 3\<rparr>"
    unfolding r
    by (simp add: timer_fire_def reconnect_def sampleStart_def connect_def Let_def
        newSignalingService_def sampleBrowser_def detachAndClose_def)
  show ?thesis
    unfolding f unfolding r unfolding l by simp
qed

section \<open>Properties of the peer connection manager\<close>

lemma sendSignal_connecting:
  assumes "socket st = Some ws" "readyState ws = CONNECTING" "myPublicKey st = Some key" "key \<noteq> []"
  shows "sendSignal B to ty d st = enqueue (envelope key (currentRoom st) (to, ty, d)) st"
  using assms by (simp add: sendSignal_def Let_def envelope_def)

lemma signal_maps:
  "connections (signal B to ty d w) = connections w"
  "dataChannels (signal B to ty d w) = dataChannels w"
  "channels (signal B to ty d w) = channels w"
  "nextObject (signal B to ty d w) = nextObject w"
  "signalingService (signal B to ty d w) = sendSignal B to ty d (signalingService w)"
  by (simp_all add: signal_def)

lemma connectToPeer_start_fields:
  "connections (connectToPeer_start k w) = AList.update k (nextObject w) (connections w)"
  "dataChannels (connectToPeer_start k w) = AList.update k (Suc (nextObject w)) (dataChannels w)"
  "channels (connectToPeer_start k w) (Suc (nextObject w))
     = Some \<lparr>dc_peer = k, dc_readyState = ch_connecting, dc_handlers = True, dc_sent = []\<rparr>"
  "peerConnections (connectToPeer_start k w) (nextObject w)
     = Some \<lparr>pc_peer = k, pc_handlers = True, pc_closed = False\<rparr>"
  "nextObject (connectToPeer_start k w) = Suc (Suc (nextObject w))"
  "signalingService (connectToPeer_start k w) = signalingService w"
  by (simp_all add: connectToPeer_start_def createPeerConnection_def newChannel_def
      setupDataChannel_def Let_def)

lemma sampleManager_fields:
  "connections sampleManager = []" "dataChannels sampleManager = []"
  "nextObject sampleManager = 0"
  "socket (signalingService sampleManager)
     = Some \<lparr>ws_id = 0, readyState = CONNECTING, handlers = True\<rparr>"
  "myPublicKey (signalingService sampleManager) = Some ''A''"
  "signalQueue (signalingService sampleManager) = []"
  by (simp_all add: sampleManager_def init_def cleanup_def newWebRTCService_def Let_def
        disconnect_def connect_def newSignalingService_def sampleBrowser_def)

lemma sampleNegotiating_fields:
  "connections sampleNegotiating = [(''B'', 0)]"
  "dataChannels sampleNegotiating = [(''B'', 1)]"
  "channels sampleNegotiating 1
     = Some \<lparr>dc_peer = ''B'', dc_readyState = ch_connecting, dc_handlers = True, dc_sent = []\<rparr>"
  "nextObject sampleNegotiating = 2"
  "socket (signalingService sampleNegotiating)
     = Some \<lparr>ws_id = 0, readyState = CONNECTING, handlers = True\<rparr>"
  "myPublicKey (signalingService sampleNegotiating) = Some ''A''"
  "map sm_data (signalQueue (signalingService sampleNegotiating)) = [100]"
proof -
  let ?S = "signalingService sampleManager"
  note m = sampleManager_fields
  have no: "\<not> channelOpen sampleManager ''B''"
    by (simp add: channelOpen_def m)
  have n: "sampleNegotiating = signal sampleBrowser ''B'' offer 100 (connectToPeer_start ''B'' sampleManager)"
    using no by (simp add: sampleNegotiating_def connectToPeer_def)
  have q: "sendSignal sampleBrowser ''B'' offer 100 ?S
      = enqueue (envelope ''A'' (currentRoom ?S) (''B'', offer, 100)) ?S"
    by (simp add: sendSignal_connecting [OF m(4) _ m(5)])
  have s: "signalingService sampleNegotiating
       = enqueue (envelope ''A'' (currentRoom ?S) (''B'', offer, 100)) ?S"
    by (simp add: n signal_maps connectToPeer_start_fields q)
  show "connections sampleNegotiating = [(''B'', 0)]"
    "dataChannels sampleNegotiating = [(''B'', 1)]"
    "channels sampleNegotiating 1
       = Some \<lparr>dc_peer = ''B'', dc_readyState = ch_connecting, dc_handlers = True, dc_sent = []\<rparr>"
    "nextObject sampleNegotiating = 2"
    using connectToPeer_start_fields [of "''B''" sampleManager]
    by (simp_all add: n signal_maps m)
  show "socket (signalingService sampleNegotiating)
     = Some \<lparr>ws_id = 0, readyState = CONNECTING, handlers = True\<rparr>"
    "myPublicKey (signalingService sampleNegotiating) = Some ''A''"
    "map sm_data (signalQueue (signalingService sampleNegotiating)) = [100]"
    by (simp_all add: s enqueue_def m envelope_def)
qed

lemma sampleNegotiating_not_open: "\<not> channelOpen sampleNegotiating ''B''"
  using sampleNegotiating_fields(3) by (simp add: channelOpen_def sampleNegotiating_fields(2))

lemma sampleConnected_fields:
  "dataChannels sampleConnected = [(''B'', 1)]"
  "channels sampleConnected 1
     = Some \<lparr>dc_peer = ''B'', dc_readyState = ch_open, dc_handlers = True, dc_sent = []\<rparr>"
  "channelOpen sampleConnected ''B''"
proof -
  have c: "channels sampleNegotiating (Suc 0)
     = Some \<lparr>dc_peer = ''B'', dc_readyState = ch_connecting, dc_handlers = True, dc_sent = []\<rparr>"
    using sampleNegotiating_fields(3) by simp
  have e: "sampleConnected = reportStatus ''B'' connected
      (sampleNegotiating\<lparr>channels := (channels sampleNegotiating)
         (1 \<mapsto> \<lparr>dc_peer = ''B'', dc_readyState = ch_open, dc_handlers = True, dc_sent = []\<rparr>)\<rparr>)"
    by (simp add: sampleConnected_def channel_onopen_def c Let_def)
  show d: "dataChannels sampleConnected = [(''B'', 1)]"
    by (simp add: e reportStatus_def sampleNegotiating_fields split: option.splits)
  show f: "channels sampleConnected 1
     = Some \<lparr>dc_peer = ''B'', dc_readyState = ch_open, dc_handlers = True, dc_sent = []\<rparr>"
    by (simp add: e reportStatus_def split: option.splits)
  show "channelOpen sampleConnected ''B''"
    using f by (simp add: channelOpen_def d)
qed

text \<open>
  C3 as stated fails on the sample manager while it negotiates with \<open>B\<close>: connection 0 and
  channel 1 are registered for \<open>B\<close>, the channel is connecting, and the offer waits in the
  queue. A second \<^verbatim>\<open>connectToPeer('B')\<close> registers connection 2 and channel 3 in their place
  and queues a second offer.
\<close>

theorem connectToPeer_repeats_while_negotiating:
  "map_of (connections sampleNegotiating) ''B'' = Some 0
   \<and> map_of (dataChannels sampleNegotiating) ''B'' = Some 1
   \<and> map_option dc_readyState (channels sampleNegotiating 1) = Some ch_connecting
   \<and> map sm_data (signalQueue (signalingService sampleNegotiating)) = [100]
   \<and> map_of (connections (connectToPeer sampleBrowser (Some 101) ''B'' sampleNegotiating)) ''B''
       = Some 2
   \<and> map_of (dataChannels (connectToPeer sampleBrowser (Some 101) ''B'' sampleNegotiating)) ''B''
       = Some 3
   \<and> map sm_data (signalQueue (signalingService
        (connectToPeer sampleBrowser (Some 101) ''B'' sampleNegotiating))) = [100, 101]
   \<and> connectToPeer sampleBrowser (Some 101) ''B'' sampleNegotiating \<noteq> sampleNegotiating"
proof -
  note n1 = sampleNegotiating_fields
  let ?w = "connectToPeer sampleBrowser (Some 101) ''B'' sampleNegotiating"
  have n2: "?w = signal sampleBrowser ''B'' offer 101 (connectToPeer_start ''B'' sampleNegotiating)"
    using sampleNegotiating_not_open by (simp add: connectToPeer_def)
  have q2: "sendSignal sampleBrowser ''B'' offer 101 (signalingService sampleNegotiating)
      = enqueue (envelope ''A'' (currentRoom (signalingService sampleNegotiating)) (''B'', offer, 101))
          (signalingService sampleNegotiating)"
    by (simp add: sendSignal_connecting [OF n1(5) _ n1(6)])
  have n3: "connections ?w = [(''B'', 2)]" "dataChannels ?w = [(''B'', 3)]"
    "map sm_data (signalQueue (signalingService ?w)) = [100, 101]"
    using connectToPeer_start_fields [of "''B''" sampleNegotiating]
    by (simp_all add: n2 signal_maps n1(1-4) q2)
       (simp add: n1 enqueue_def envelope_def)
  have "connections ?w \<noteq> connections sampleNegotiating"
    by (simp add: n3 n1)
  then have d: "?w \<noteq> sampleNegotiating" by auto
  have c1: "map_option dc_readyState (channels sampleNegotiating 1) = Some ch_connecting"
    unfolding n1(3) by simp
  have g: "map_of (connections sampleNegotiating) ''B'' = Some 0"
    "map_of (dataChannels sampleNegotiating) ''B'' = Some 1"
    "map_of (connections ?w) ''B'' = Some 2" "map_of (dataChannels ?w) ''B'' = Some 3"
    by (simp_all add: n1(1,2) n3(1,2))
  from g c1 n1(7) n3(3) d show ?thesis
    by (intro conjI)
qed

text \<open>
  C3, as the code has it. When the channel registered for \<open>k\<close> is open, \<^verbatim>\<open>connectToPeer(k)\<close>
  changes nothing and sends nothing. In every other case, a negotiation in progress
  included, it registers a new connection object and a new channel object for \<open>k\<close>, in
  place of what the two maps held for \<open>k\<close>, and sends the offer once it is created.
\<close>

theorem connectToPeer_guard:
  "(channelOpen w k \<longrightarrow> connectToPeer B created k w = w)
   \<and> (\<not> channelOpen w k \<longrightarrow>
        map_of (connections (connectToPeer B created k w)) k = Some (nextObject w)
        \<and> map_of (dataChannels (connectToPeer B created k w)) k = Some (Suc (nextObject w))
        \<and> channels (connectToPeer B created k w) (Suc (nextObject w))
            = Some \<lparr>dc_peer = k, dc_readyState = ch_connecting, dc_handlers = True, dc_sent = []\<rparr>
        \<and> signalingService (connectToPeer B created k w)
            = (case created of
                 None \<Rightarrow> signalingService w
               | Some sdp \<Rightarrow> sendSignal B k offer sdp (signalingService w)))"
  by (cases created)
     (simp_all add: connectToPeer_def Let_def signal_maps connectToPeer_start_fields
        update_Some_unfold)

text \<open>
  An instance of each half: on the manager whose channel to \<open>B\<close> is open a further
  \<^verbatim>\<open>connectToPeer('B')\<close> changes nothing; on the manager still negotiating it registers the
  next two objects.
\<close>

theorem connectToPeer_guard_witness:
  "channelOpen sampleConnected ''B''
   \<and> connectToPeer sampleBrowser (Some 101) ''B'' sampleConnected = sampleConnected
   \<and> \<not> channelOpen sampleNegotiating ''B''
   \<and> map_of (connections (connectToPeer sampleBrowser (Some 101) ''B'' sampleNegotiating)) ''B''
       = Some 2"
  using connectToPeer_guard [of sampleConnected "''B''" sampleBrowser "Some 101"]
    connectToPeer_guard [of sampleNegotiating "''B''" sampleBrowser "Some 101"]
    sampleConnected_fields(3) sampleNegotiating_not_open sampleNegotiating_fields(4)
  by simp

text \<open>
  What \<^verbatim>\<open>sendMessage\<close> does in each case: without an open channel it returns \<^verbatim>\<open>false\<close> and
  changes nothing; with one, it hands the message over and returns \<^verbatim>\<open>true\<close> when
  \<^verbatim>\<open>channel.send\<close> takes the message, and otherwise the exception of \<^verbatim>\<open>channel.send\<close> leaves
  \<^verbatim>\<open>sendMessage\<close>, with nothing sent and nothing changed.
\<close>

lemma sendMessage_cases:
  "(\<not> channelOpen w k \<longrightarrow> sendMessage B k m w = (Inr False, w))
   \<and> (channelOpen w k \<longrightarrow>
        (\<exists>c ch. map_of (dataChannels w) k = Some c \<and> channels w c = Some ch
           \<and> dc_readyState ch = ch_open
           \<and> sendMessage B k m w
               = (if channelSendAccepts B (dc_sent ch) m
                  then (Inr True,
                        w\<lparr>channels := (channels w)(c \<mapsto> ch\<lparr>dc_sent := dc_sent ch @ [m]\<rparr>)\<rparr>)
                  else (Inl ChannelSendThrows, w))))"
  by (auto simp: sendMessage_def channelOpen_def split: option.splits)

lemma sendMessage_returns_true_iff:
  "fst (sendMessage B k m w) = Inr True
   \<longleftrightarrow> channelOpen w k
       \<and> (\<exists>c ch. map_of (dataChannels w) k = Some c \<and> channels w c = Some ch
              \<and> channelSendAccepts B (dc_sent ch) m)"
  by (auto simp: sendMessage_def channelOpen_def split: option.splits)

lemma sendMessage_samples:
  "fst (sendMessage sampleBrowser ''B'' ''hi'' sampleConnected) = Inr True"
  "map_option dc_sent (channels (snd (sendMessage sampleBrowser ''B'' ''hi'' sampleConnected)) 1)
     = Some [''hi'']"
  "sendMessage sampleBrowser ''B'' ''hi'' sampleNegotiating = (Inr False, sampleNegotiating)"
proof -
  have c: "channels sampleConnected (Suc 0)
     = Some \<lparr>dc_peer = ''B'', dc_readyState = ch_open, dc_handlers = True, dc_sent = []\<rparr>"
    using sampleConnected_fields(2) by simp
  show "fst (sendMessage sampleBrowser ''B'' ''hi'' sampleConnected) = Inr True"
    "map_option dc_sent (channels (snd (sendMessage sampleBrowser ''B'' ''hi'' sampleConnected)) 1)
     = Some [''hi'']"
    by (simp_all add: sendMessage_def sampleConnected_fields(1) c sampleBrowser_def)
  show "sendMessage sampleBrowser ''B'' ''hi'' sampleNegotiating = (Inr False, sampleNegotiating)"
    using sendMessage_cases [of sampleNegotiating "''B''" sampleBrowser "''hi''"]
      sampleNegotiating_not_open by simp
qed

text \<open>
  C7, at the input where it fails. The channel registered for \<open>B\<close> is open and the payload
  is longer than the channel takes in one message (300000 characters, with a limit of
  262144): \<^verbatim>\<open>channel.send\<close> throws, nothing catches it, and \<^verbatim>\<open>sendMessage\<close> returns neither
  \<^verbatim>\<open>true\<close> nor \<^verbatim>\<open>false\<close>.
\<close>

theorem sendMessage_throws_on_open_channel:
  "channelOpen sampleConnected ''B''
   \<and> sendMessage sampleBrowser ''B'' (replicate 300000 (CHR ''x'')) sampleConnected
       = (Inl ChannelSendThrows, sampleConnected)"
proof -
  have c: "channels sampleConnected (Suc 0)
     = Some \<lparr>dc_peer = ''B'', dc_readyState = ch_open, dc_handlers = True, dc_sent = []\<rparr>"
    using sampleConnected_fields(2) by simp
  have "sendMessage sampleBrowser ''B'' (replicate 300000 (CHR ''x'')) sampleConnected
       = (Inl ChannelSendThrows, sampleConnected)"
    by (simp add: sendMessage_def sampleConnected_fields(1) c sampleBrowser_def)
  with sampleConnected_fields(3) show ?thesis by (intro conjI)
qed

subsection \<open>One entry per key\<close>

lemma entriesFor_distinct: "distinct (map fst m) \<Longrightarrow> length (entriesFor k m) \<le> 1"
proof (induction m)
  case Nil
  then show ?case by (simp add: entriesFor_def)
next
  case (Cons e m)
  show ?case
  proof (cases "fst e = k")
    case True
    from Cons.prems have "fst e \<notin> fst ` set m" by simp
    with True have "\<forall>x \<in> set m. fst x \<noteq> k" by (metis imageI)
    then have "filter (\<lambda>e. fst e = k) m = []" by (simp add: filter_empty_conv)
    with True show ?thesis by (simp add: entriesFor_def)
  next
    case False
    with Cons show ?thesis by (simp add: entriesFor_def)
  qed
qed

lemma keysDistinct_same:
  "connections w' = connections w \<Longrightarrow> dataChannels w' = dataChannels w
   \<Longrightarrow> keysDistinct w' = keysDistinct w"
  by (simp add: keysDistinct_def)

lemma keysDistinct_new: "keysDistinct (newWebRTCService stored)"
  by (simp add: keysDistinct_def newWebRTCService_def)

lemma keysDistinct_createPeerConnection:
  "keysDistinct w \<Longrightarrow> keysDistinct (snd (createPeerConnection k w))"
  by (simp add: keysDistinct_def createPeerConnection_def Let_def distinct_update)

lemma keysDistinct_connectToPeer_start:
  "keysDistinct w \<Longrightarrow> keysDistinct (connectToPeer_start k w)"
  by (simp add: keysDistinct_def connectToPeer_start_fields distinct_update)

lemma keysDistinct_reportStatus: "keysDistinct (reportStatus k s w) = keysDistinct w"
  by (simp add: reportStatus_def keysDistinct_def split: option.splits)

lemma keysDistinct_step: "keysDistinct w \<Longrightarrow> keysDistinct (step B e w)"
proof (cases e)
  case (Init key cb)
  then show ?thesis by (simp add: init_def cleanup_def Let_def keysDistinct_def)
next
  case Cleanup
  then show ?thesis by (simp add: cleanup_def keysDistinct_def)
next
  case (ConnectToPeer k)
  assume "keysDistinct w"
  with ConnectToPeer show ?thesis by (simp add: keysDistinct_connectToPeer_start)
next
  case (OfferCreated k sdp)
  assume "keysDistinct w"
  with OfferCreated show ?thesis
    using keysDistinct_same [of "signal B k offer sdp w" w] by (simp add: signal_maps)
next
  case (HandleSignal sender)
  assume "keysDistinct w"
  with HandleSignal show ?thesis
    by (simp add: handleSignal_start_def keysDistinct_createPeerConnection split: option.splits)
next
  case (AnswerCreated sender sdp)
  assume "keysDistinct w"
  with AnswerCreated show ?thesis
    using keysDistinct_same [of "signal B sender answer sdp w" w] by (simp add: signal_maps)
next
  case (OnStatusChange k cb)
  assume "keysDistinct w"
  with OnStatusChange show ?thesis by (simp add: onStatusChange_def keysDistinct_def)
next
  case (SendMessage k m)
  assume "keysDistinct w"
  with SendMessage show ?thesis
    by (simp add: sendMessage_def keysDistinct_def split: option.splits)
next
  case (ChannelOpen c)
  assume "keysDistinct w"
  with ChannelOpen show ?thesis
    by (simp add: channel_onopen_def Let_def keysDistinct_reportStatus split: option.splits)
       (simp add: keysDistinct_def)
next
  case (ChannelClose c)
  assume a: "keysDistinct w"
  have r: "distinct (map fst (dataChannels (reportStatus k s v)))
         = distinct (map fst (dataChannels v))"
    "connections (reportStatus k s v) = connections v" for k s and v :: "'a WebRTCService"
    by (simp_all add: reportStatus_def split: option.splits)
  from a ChannelClose show ?thesis
    by (simp add: channel_onclose_def Let_def keysDistinct_def r distinct_delete
        split: option.splits)
next
  case (ChannelMessage c m)
  assume "keysDistinct w"
  with ChannelMessage show ?thesis
    by (simp add: channel_onmessage_def keysDistinct_def split: option.splits)
next
  case (RemoteChannel p s)
  assume "keysDistinct w"
  with RemoteChannel show ?thesis
    by (simp add: pc_ondatachannel_def newChannel_def setupDataChannel_def Let_def
        keysDistinct_def distinct_update split: option.splits)
next
  case (IceCandidate p c)
  assume a: "keysDistinct w"
  have "keysDistinct (signal B k candidate d w)" for k d
    using a keysDistinct_same [of "signal B k candidate d w" w] by (simp add: signal_maps)
  with a IceCandidate show ?thesis
    by (simp add: pc_onicecandidate_def split: option.splits)
next
  case (IceStateChange p s)
  assume "keysDistinct w"
  with IceStateChange show ?thesis
    by (simp add: pc_oniceconnectionstatechange_def keysDistinct_reportStatus split: option.splits)
qed

lemma keysDistinct_run: "keysDistinct w \<Longrightarrow> keysDistinct (run B es w)"
  unfolding run_def
  by (induction es arbitrary: w) (simp_all add: keysDistinct_step)

text \<open>
  C5. Start from the manager as constructed and let anything happen in any order: calls of
  \<^verbatim>\<open>init\<close>, \<^verbatim>\<open>cleanup\<close>, \<^verbatim>\<open>connectToPeer\<close>, \<^verbatim>\<open>sendMessage\<close> and \<^verbatim>\<open>onStatusChange\<close>, inbound
  signals, and events of any channel or connection object. Afterwards \<^verbatim>\<open>connections\<close> and
  \<^verbatim>\<open>dataChannels\<close> each hold at most one entry for every key.
\<close>

theorem one_session_per_key:
  "length (entriesFor k (connections (run B es (newWebRTCService stored)))) \<le> 1
   \<and> length (entriesFor k (dataChannels (run B es (newWebRTCService stored)))) \<le> 1"
proof -
  have "keysDistinct (run B es (newWebRTCService stored))"
    by (rule keysDistinct_run [OF keysDistinct_new])
  then show ?thesis
    unfolding keysDistinct_def
    using entriesFor_distinct [of "connections (run B es (newWebRTCService stored))" k]
      entriesFor_distinct [of "dataChannels (run B es (newWebRTCService stored))" k]
    by blast
qed

text \<open>
  An instance: two calls \<^verbatim>\<open>connectToPeer('B')\<close> with an inbound signal from \<open>B\<close> between
  them.
\<close>

theorem one_session_per_key_witness:
  "length (entriesFor ''B'' (connections
      (run sampleBrowser [Init ''A'' 1, ConnectToPeer ''B'', HandleSignal ''B'', ConnectToPeer ''B'']
         (newWebRTCService None :: nat WebRTCService)))) \<le> 1
   \<and> length (entriesFor ''B'' (dataChannels
      (run sampleBrowser [Init ''A'' 1, ConnectToPeer ''B'', HandleSignal ''B'', ConnectToPeer ''B'']
         (newWebRTCService None :: nat WebRTCService)))) \<le> 1"
  by (rule one_session_per_key)

end
